theory Spec2Isabelle
  imports Complex_Main "HOL-Library.Monad_Syntax"
begin

section \<open>JavaScript numbers\<close>

text \<open>
  A TypeScript \<open>number\<close> is modelled as an exact real or one of the three special values of
  IEEE-754 arithmetic. The special values follow the IEEE rules that JavaScript uses
  (\<open>x / 0\<close>, \<open>0 * Infinity\<close>, comparisons with \<open>NaN\<close>). On finite values the
  arithmetic is exact: rounding, overflow to \<open>Infinity\<close> and the sign of zero are not part
  of the model (every zero is \<open>+0\<close>).
\<close>

datatype number = Fin real | PosInfinity | NegInfinity | NaN

instantiation number :: "{plus, minus, uminus, times, inverse, abs, ord}"
begin

fun plus_number :: "number \<Rightarrow> number \<Rightarrow> number" where
  "plus_number (Fin a) (Fin b) = Fin (a + b)"
| "plus_number NaN _ = NaN"
| "plus_number _ NaN = NaN"
| "plus_number PosInfinity NegInfinity = NaN"
| "plus_number NegInfinity PosInfinity = NaN"
| "plus_number PosInfinity _ = PosInfinity"
| "plus_number _ PosInfinity = PosInfinity"
| "plus_number NegInfinity _ = NegInfinity"
| "plus_number _ NegInfinity = NegInfinity"

fun uminus_number :: "number \<Rightarrow> number" where
  "uminus_number (Fin a) = Fin (- a)"
| "uminus_number PosInfinity = NegInfinity"
| "uminus_number NegInfinity = PosInfinity"
| "uminus_number NaN = NaN"

definition minus_number :: "number \<Rightarrow> number \<Rightarrow> number" where
  "minus_number (a::number) b = a + (- b)"

fun times_number :: "number \<Rightarrow> number \<Rightarrow> number" where
  "times_number (Fin a) (Fin b) = Fin (a * b)"
| "times_number NaN _ = NaN"
| "times_number _ NaN = NaN"
| "times_number PosInfinity (Fin b) =
     (if 0 < b then PosInfinity else if b < 0 then NegInfinity else NaN)"
| "times_number NegInfinity (Fin b) =
     (if 0 < b then NegInfinity else if b < 0 then PosInfinity else NaN)"
| "times_number (Fin a) PosInfinity =
     (if 0 < a then PosInfinity else if a < 0 then NegInfinity else NaN)"
| "times_number (Fin a) NegInfinity =
     (if 0 < a then NegInfinity else if a < 0 then PosInfinity else NaN)"
| "times_number PosInfinity PosInfinity = PosInfinity"
| "times_number NegInfinity NegInfinity = PosInfinity"
| "times_number PosInfinity NegInfinity = NegInfinity"
| "times_number NegInfinity PosInfinity = NegInfinity"

fun divide_number :: "number \<Rightarrow> number \<Rightarrow> number" where
  "divide_number (Fin a) (Fin b) =
     (if b = 0 then (if a = 0 then NaN else if 0 < a then PosInfinity else NegInfinity)
      else Fin (a / b))"
| "divide_number NaN _ = NaN"
| "divide_number _ NaN = NaN"
| "divide_number (Fin a) _ = Fin 0"
| "divide_number PosInfinity (Fin b) = (if 0 \<le> b then PosInfinity else NegInfinity)"
| "divide_number NegInfinity (Fin b) = (if 0 \<le> b then NegInfinity else PosInfinity)"
| "divide_number _ _ = NaN"

definition inverse_number :: "number \<Rightarrow> number" where
  "inverse_number (a::number) = Fin 1 div a"

fun abs_number :: "number \<Rightarrow> number" where
  "abs_number (Fin a) = Fin \<bar>a\<bar>"
| "abs_number NaN = NaN"
| "abs_number _ = PosInfinity"

fun less_number :: "number \<Rightarrow> number \<Rightarrow> bool" where
  "less_number (Fin a) (Fin b) = (a < b)"
| "less_number NaN _ = False"
| "less_number _ NaN = False"
| "less_number _ NegInfinity = False"
| "less_number PosInfinity _ = False"
| "less_number _ _ = True"

definition less_eq_number :: "number \<Rightarrow> number \<Rightarrow> bool" where
  "less_eq_number (a::number) b = (a < b \<or> (a = b \<and> a \<noteq> NaN))"

instance ..

end

text \<open>\<open>Math.sqrt\<close>, \<open>Math.sin\<close>, \<open>Math.cos\<close>, \<open>Math.atan2\<close> and \<open>Math.pow\<close> (the
  last for the exponents 2 and 3 of the source, as repeated multiplication).\<close>

fun Math_sqrt :: "number \<Rightarrow> number" where
  "Math_sqrt (Fin a) = (if a < 0 then NaN else Fin (sqrt a))"
| "Math_sqrt PosInfinity = PosInfinity"
| "Math_sqrt _ = NaN"

fun Math_sin :: "number \<Rightarrow> number" where
  "Math_sin (Fin a) = Fin (sin a)"
| "Math_sin _ = NaN"

fun Math_cos :: "number \<Rightarrow> number" where
  "Math_cos (Fin a) = Fin (cos a)"
| "Math_cos _ = NaN"

definition atan2_real :: "real \<Rightarrow> real \<Rightarrow> real" where
  "atan2_real b a =
     (if 0 < a then arctan (b / a)
      else if a < 0 then (if 0 \<le> b then arctan (b / a) + pi else arctan (b / a) - pi)
      else if 0 < b then pi / 2 else if b < 0 then - (pi / 2) else 0)"

fun Math_atan2 :: "number \<Rightarrow> number \<Rightarrow> number" where
  "Math_atan2 (Fin b) (Fin a) = Fin (atan2_real b a)"
| "Math_atan2 NaN _ = NaN"
| "Math_atan2 _ NaN = NaN"
| "Math_atan2 (Fin b) PosInfinity = Fin 0"
| "Math_atan2 (Fin b) NegInfinity = (if 0 \<le> b then Fin pi else Fin (- pi))"
| "Math_atan2 PosInfinity (Fin a) = Fin (pi / 2)"
| "Math_atan2 NegInfinity (Fin a) = Fin (- (pi / 2))"
| "Math_atan2 PosInfinity PosInfinity = Fin (pi / 4)"
| "Math_atan2 PosInfinity NegInfinity = Fin (3 * pi / 4)"
| "Math_atan2 NegInfinity PosInfinity = Fin (- (pi / 4))"
| "Math_atan2 NegInfinity NegInfinity = Fin (- (3 * pi / 4))"

fun Math_pow :: "number \<Rightarrow> nat \<Rightarrow> number" where
  "Math_pow a 0 = Fin 1"
| "Math_pow a (Suc 0) = a"
| "Math_pow a (Suc (Suc n)) = a * Math_pow a (Suc n)"

text \<open>JavaScript truthiness of a number (\<open>0\<close> and \<open>NaN\<close> are falsy) and the idiom
  \<open>v || d\<close> on an optional number.\<close>

fun truthy :: "number \<Rightarrow> bool" where
  "truthy (Fin a) = (a \<noteq> 0)"
| "truthy NaN = False"
| "truthy _ = True"

fun orElse :: "number option \<Rightarrow> number \<Rightarrow> number" where
  "orElse None d = d"
| "orElse (Some v) d = (if truthy v then v else d)"


section \<open>Data model (types/Satellite.ts)\<close>

datatype OrbitType = LEO | Polar | GEO | MEO

datatype Status = Safe | Warning | Danger

record TLE =
  line1 :: string
  line2 :: string

record Vec3 =
  vec_x :: number
  vec_y :: number
  vec_z :: number

definition zeroVec :: Vec3 where
  "zeroVec = \<lparr>vec_x = Fin 0, vec_y = Fin 0, vec_z = Fin 0\<rparr>"

text \<open>The interface \<open>Satellite\<close>; an optional property is an \<open>option\<close>.\<close>

record Satellite =
  sat_id :: string
  sat_name :: string
  sat_orbitType :: OrbitType
  sat_altitude :: number
  sat_inclination :: number
  sat_velocity :: number
  sat_status :: "Status option"
  sat_tle :: "TLE option"
  sat_eccentricity :: "number option"
  sat_argumentOfPeriapsis :: "number option"
  sat_rightAscensionOfAscendingNode :: "number option"
  sat_meanAnomaly :: "number option"
  sat_currentPosition :: "Vec3 option"
  sat_currentVelocity :: "Vec3 option"
  sat_lastUpdated :: "string option"
  sat_noradId :: "string option"

text \<open>\<open>Partial<Satellite>\<close>: every property may be absent (\<open>None\<close>). A property that is
  present with the value \<open>undefined\<close> is not distinguished from an absent one.\<close>

record PartialSatellite =
  p_sat_id :: "string option"
  p_name :: "string option"
  p_orbitType :: "OrbitType option"
  p_altitude :: "number option"
  p_inclination :: "number option"
  p_velocity :: "number option"
  p_status :: "Status option"
  p_tle :: "TLE option"
  p_eccentricity :: "number option"
  p_argumentOfPeriapsis :: "number option"
  p_rightAscensionOfAscendingNode :: "number option"
  p_meanAnomaly :: "number option"
  p_currentPosition :: "Vec3 option"
  p_currentVelocity :: "Vec3 option"
  p_lastUpdated :: "string option"
  p_noradId :: "string option"

datatype ActionType =
  OrbitAdjustment | PowerDown | AttitudeChange | EvasiveManeuver | CommunicationShutdown

datatype Priority = PriorityLow | PriorityMedium | PriorityHigh | PriorityCritical

record ManeuverParameters =
  deltaV :: "number option"
  burnDuration :: "number option"
  newOrbit :: "PartialSatellite option"

record SuggestedAction =
  action_id :: string
  action_type :: ActionType
  description :: string
  priority :: Priority
  estimatedFuelCost :: "number option"
  estimatedTimeToExecute :: "number option"
  successProbability :: "number option"
  parameters :: "ManeuverParameters option"

section \<open>The simulator (utils/SatelliteSimulator.ts)\<close>

text \<open>The object literal built by \<open>calculateOrbitalElements\<close>.\<close>

record OrbitalElements =
  el_semiMajorAxis :: number
  el_inclination :: number
  el_meanMotion :: number
  el_orbitalPeriod :: number
  el_eccentricity :: number
  el_argumentOfPeriapsis :: number
  el_rightAscensionOfAscendingNode :: number
  el_meanAnomaly :: number

text \<open>The private fields of the class \<open>SatelliteSimulator\<close>. The satellite record of
  satellite.js is kept as the element set it was parsed from.\<close>

record Simulator =
  sim_satellite :: Satellite
  sim_time :: number
  sim_position :: Vec3
  sim_velocity :: Vec3
  sim_orbitalElements :: "OrbitalElements option"
  sim_satrec :: "TLE option"

datatype error = TypeError

text \<open>
  satellite.js is not part of the repository. What \<open>updatePositionFromTLE\<close> obtains from it
  (\<open>propagate\<close> at the wall-clock instant, \<open>gstime\<close>, \<open>eciToGeodetic\<close>) is a parameter of
  the model: for an element set, the position and the velocity when the library reports
  them, and the geodetic height.
\<close>

record TleFix =
  fix_position :: "Vec3 option"
  fix_velocity :: "Vec3 option"
  fix_height :: number

type_synonym TleLibrary = "TLE \<Rightarrow> TleFix"

definition updatePositionFromTLE :: "TleLibrary \<Rightarrow> Simulator \<Rightarrow> Simulator" where
  "updatePositionFromTLE lib s =
     (case sim_satrec s of
        None \<Rightarrow> s
      | Some satrec \<Rightarrow>
          (case fix_position (lib satrec) of
             None \<Rightarrow> s
           | Some p \<Rightarrow>
               let s1 = s\<lparr>sim_position := p\<rparr>;
                   s2 = (case fix_velocity (lib satrec) of
                           None \<Rightarrow> s1
                         | Some v \<Rightarrow> s1\<lparr>sim_velocity := v\<rparr>)
               in s2\<lparr>sim_satellite := (sim_satellite s2)\<lparr>sat_altitude := fix_height (lib satrec)\<rparr>\<rparr>))"

definition calculateOrbitalElements :: "Satellite \<Rightarrow> OrbitalElements" where
  "calculateOrbitalElements sat =
     (let earthRadius = Fin 6371;
          semiMajorAxis = sat_altitude sat + earthRadius;
          inclinationRad = (sat_inclination sat * Fin pi) / Fin 180;
          mu = Fin (3986004418 / 10000);
          orbitalPeriod = Fin 2 * Fin pi * Math_sqrt (Math_pow semiMajorAxis 3 / mu);
          meanMotion = Fin 2 * Fin pi / orbitalPeriod;
          orbitalElements = \<lparr>
            el_semiMajorAxis = semiMajorAxis,
            el_inclination = inclinationRad,
            el_meanMotion = meanMotion,
            el_orbitalPeriod = orbitalPeriod,
            el_eccentricity = Fin 0,
            el_argumentOfPeriapsis = Fin 0,
            el_rightAscensionOfAscendingNode = Fin 0,
            el_meanAnomaly = Fin 0\<rparr>
      in if sat_orbitType sat = LEO then
           orbitalElements\<lparr>
             el_eccentricity := orElse (sat_eccentricity sat) (Fin (1 / 100)),
             el_argumentOfPeriapsis :=
               orElse (sat_argumentOfPeriapsis sat) (Fin 0) * Fin pi / Fin 180\<rparr>
         else if sat_orbitType sat = Polar then
           orbitalElements\<lparr>
             el_rightAscensionOfAscendingNode :=
               orElse (sat_rightAscensionOfAscendingNode sat) (Fin 0) * Fin pi / Fin 180,
             el_meanAnomaly := orElse (sat_meanAnomaly sat) (Fin 0) * Fin pi / Fin 180\<rparr>
         else orbitalElements)"

text \<open>The loop of \<open>solveKeplersEquation\<close>; the first argument counts the iterations that
  are left.\<close>

fun keplerLoop :: "nat \<Rightarrow> number \<Rightarrow> number \<Rightarrow> number \<Rightarrow> number" where
  "keplerLoop 0 meanAnomaly eccentricity eccentricAnomaly = eccentricAnomaly"
| "keplerLoop (Suc k) meanAnomaly eccentricity eccentricAnomaly =
     (let f = eccentricAnomaly - eccentricity * Math_sin eccentricAnomaly - meanAnomaly;
          fPrime = Fin 1 - eccentricity * Math_cos eccentricAnomaly
      in if \<bar>f\<bar> < Fin (1 / 1000000) then eccentricAnomaly
         else keplerLoop k meanAnomaly eccentricity (eccentricAnomaly - f / fPrime))"

definition solveKeplersEquation :: "number \<Rightarrow> number \<Rightarrow> nat \<Rightarrow> number" where
  "solveKeplersEquation meanAnomaly eccentricity maxIterations =
     keplerLoop maxIterations meanAnomaly eccentricity meanAnomaly"

text \<open>\<open>calculatePosition(timeStep = 1)\<close>. Destructuring \<open>this.orbitalElements\<close> throws a
  \<open>TypeError\<close> when the simulator has none (a simulator built from a two-line element
  set). A call that throws yields the error only: the simulator it leaves behind, with the
  elapsed time already advanced, is not part of the result.\<close>

definition calculatePosition :: "number option \<Rightarrow> Simulator \<Rightarrow> error + Simulator" where
  "calculatePosition timeStep s =
     (let s1 = s\<lparr>sim_time := sim_time s + (case timeStep of None \<Rightarrow> Fin 1 | Some d \<Rightarrow> d)\<rparr>
      in case sim_orbitalElements s1 of
           None \<Rightarrow> Inl TypeError
         | Some el \<Rightarrow>
             let semiMajorAxis = el_semiMajorAxis el;
                 eccentricity = el_eccentricity el;
                 inclination = el_inclination el;
                 rightAscensionOfAscendingNode = el_rightAscensionOfAscendingNode el;
                 argumentOfPeriapsis = el_argumentOfPeriapsis el;
                 meanMotion = el_meanMotion el;
                 meanAnomaly = el_meanAnomaly el;
                 currentMeanAnomaly = meanAnomaly + meanMotion * sim_time s1;
                 eccentricAnomaly = solveKeplersEquation currentMeanAnomaly eccentricity 10;
                 trueAnomaly = Fin 2 * Math_atan2
                   (Math_sqrt (Fin 1 + eccentricity) * Math_sin (eccentricAnomaly / Fin 2))
                   (Math_sqrt (Fin 1 - eccentricity) * Math_cos (eccentricAnomaly / Fin 2));
                 radius = semiMajorAxis * (Fin 1 - eccentricity * Math_cos eccentricAnomaly);
                 xOrbital = radius * Math_cos trueAnomaly;
                 yOrbital = radius * Math_sin trueAnomaly;
                 cosRAAN = Math_cos rightAscensionOfAscendingNode;
                 sinRAAN = Math_sin rightAscensionOfAscendingNode;
                 cosInc = Math_cos inclination;
                 sinInc = Math_sin inclination;
                 cosArgP = Math_cos argumentOfPeriapsis;
                 sinArgP = Math_sin argumentOfPeriapsis;
                 x = xOrbital * (cosRAAN * cosArgP - sinRAAN * sinArgP * cosInc) -
                     yOrbital * (cosRAAN * sinArgP + sinRAAN * cosArgP * cosInc);
                 y = xOrbital * (sinRAAN * cosArgP + cosRAAN * sinArgP * cosInc) -
                     yOrbital * (sinRAAN * sinArgP - cosRAAN * cosArgP * cosInc);
                 z = xOrbital * sinArgP * sinInc + yOrbital * cosArgP * sinInc
             in Inr (s1\<lparr>sim_position := \<lparr>vec_x = x, vec_y = y, vec_z = z\<rparr>\<rparr>))"

definition initializeSimulation :: "TleLibrary \<Rightarrow> Simulator \<Rightarrow> error + Simulator" where
  "initializeSimulation lib s =
     (case sat_tle (sim_satellite s) of
        Some t \<Rightarrow> Inr (updatePositionFromTLE lib (s\<lparr>sim_satrec := Some t\<rparr>))
      | None \<Rightarrow>
          calculatePosition None
            (s\<lparr>sim_orbitalElements := Some (calculateOrbitalElements (sim_satellite s))\<rparr>))"

text \<open>The constructor, reached through the factory \<open>createSatelliteSimulator\<close>.\<close>

definition createSatelliteSimulator :: "TleLibrary \<Rightarrow> Satellite \<Rightarrow> error + Simulator" where
  "createSatelliteSimulator lib sat =
     initializeSimulation lib
       \<lparr>sim_satellite = sat, sim_time = Fin 0, sim_position = zeroVec,
        sim_velocity = zeroVec, sim_orbitalElements = None, sim_satrec = None\<rparr>"

text \<open>The private \<open>calculateVelocityDirection\<close> and \<open>calculateVelocity\<close>, which nothing in
  the repository calls.\<close>

definition calculateVelocityDirection :: "Simulator \<Rightarrow> Vec3" where
  "calculateVelocityDirection s =
     (let angle = Math_atan2 (vec_y (sim_position s)) (vec_x (sim_position s)) + Fin pi / Fin 2
      in \<lparr>vec_x = Math_cos angle, vec_y = Math_sin angle, vec_z = Fin 0\<rparr>)"

definition calculateVelocity :: "Simulator \<Rightarrow> error + Simulator" where
  "calculateVelocity s =
     (case sim_orbitalElements s of
        None \<Rightarrow> Inl TypeError
      | Some el \<Rightarrow>
          let semiMajorAxis = el_semiMajorAxis el;
              mu = Fin (3986004418 / 10000);
              p = sim_position s;
              r = Math_sqrt (Math_pow (vec_x p) 2 + Math_pow (vec_y p) 2 + Math_pow (vec_z p) 2);
              velocityMagnitude = Math_sqrt (mu * (Fin 2 / r - Fin 1 / semiMajorAxis));
              velocityDirection = calculateVelocityDirection s
          in Inr (s\<lparr>sim_velocity :=
                 \<lparr>vec_x = velocityMagnitude * vec_x velocityDirection,
                  vec_y = velocityMagnitude * vec_y velocityDirection,
                  vec_z = velocityMagnitude * vec_z velocityDirection\<rparr>\<rparr>))"

text \<open>The object spread \<open>{ ...satellite, ...newSatellite }\<close>: a property present in the
  second object replaces the one of the first.\<close>

fun spreadOver :: "'a \<Rightarrow> 'a option \<Rightarrow> 'a" where
  "spreadOver old None = old"
| "spreadOver old (Some v) = v"

fun spreadOverOptional :: "'a option \<Rightarrow> 'a option \<Rightarrow> 'a option" where
  "spreadOverOptional old None = old"
| "spreadOverOptional old (Some v) = Some v"

definition spread :: "Satellite \<Rightarrow> PartialSatellite \<Rightarrow> Satellite" where
  "spread sat new =
     \<lparr>sat_id = spreadOver (sat_id sat) (p_sat_id new),
      sat_name = spreadOver (sat_name sat) (p_name new),
      sat_orbitType = spreadOver (sat_orbitType sat) (p_orbitType new),
      sat_altitude = spreadOver (sat_altitude sat) (p_altitude new),
      sat_inclination = spreadOver (sat_inclination sat) (p_inclination new),
      sat_velocity = spreadOver (sat_velocity sat) (p_velocity new),
      sat_status = spreadOverOptional (sat_status sat) (p_status new),
      sat_tle = spreadOverOptional (sat_tle sat) (p_tle new),
      sat_eccentricity = spreadOverOptional (sat_eccentricity sat) (p_eccentricity new),
      sat_argumentOfPeriapsis =
        spreadOverOptional (sat_argumentOfPeriapsis sat) (p_argumentOfPeriapsis new),
      sat_rightAscensionOfAscendingNode =
        spreadOverOptional (sat_rightAscensionOfAscendingNode sat)
          (p_rightAscensionOfAscendingNode new),
      sat_meanAnomaly = spreadOverOptional (sat_meanAnomaly sat) (p_meanAnomaly new),
      sat_currentPosition = spreadOverOptional (sat_currentPosition sat) (p_currentPosition new),
      sat_currentVelocity = spreadOverOptional (sat_currentVelocity sat) (p_currentVelocity new),
      sat_lastUpdated = spreadOverOptional (sat_lastUpdated sat) (p_lastUpdated new),
      sat_noradId = spreadOverOptional (sat_noradId sat) (p_noradId new)\<rparr>"

definition updateSatellite ::
  "TleLibrary \<Rightarrow> PartialSatellite \<Rightarrow> Simulator \<Rightarrow> error + Simulator" where
  "updateSatellite lib newSatellite s =
     initializeSimulation lib (s\<lparr>sim_satellite := spread (sim_satellite s) newSatellite\<rparr>)"

text \<open>\<open>executeAction\<close> returns its boolean together with the simulator it leaves.\<close>

definition executeAction ::
  "TleLibrary \<Rightarrow> SuggestedAction \<Rightarrow> Simulator \<Rightarrow> error + (bool \<times> Simulator)" where
  "executeAction lib action s =
     (case parameters action of
        None \<Rightarrow> Inr (False, s)
      | Some params \<Rightarrow>
          (case deltaV params of
             None \<Rightarrow> Inr (False, s)
           | Some dv \<Rightarrow>
               if \<not> truthy dv then Inr (False, s)
               else
                 (case burnDuration params of
                    None \<Rightarrow> Inr (False, s)
                  | Some bd \<Rightarrow>
                      if \<not> truthy bd then Inr (False, s)
                      else
                        let acceleration = dv / bd;
                            velocityChange = acceleration * bd;
                            v = sim_velocity s;
                            velocityMagnitude = Math_sqrt
                              (Math_pow (vec_x v) 2 + Math_pow (vec_y v) 2 + Math_pow (vec_z v) 2);
                            newVelocityMagnitude = velocityMagnitude + velocityChange / Fin 1000;
                            scale = newVelocityMagnitude / velocityMagnitude;
                            s1 = s\<lparr>sim_velocity :=
                                   \<lparr>vec_x = vec_x v * scale,
                                    vec_y = vec_y v * scale,
                                    vec_z = vec_z v * scale\<rparr>\<rparr>;
                            s2 = s1\<lparr>sim_satellite :=
                                   (sim_satellite s1)\<lparr>sat_velocity := newVelocityMagnitude\<rparr>\<rparr>
                        in (case newOrbit params of
                              None \<Rightarrow> Inr (True, s2)
                            | Some orbit \<Rightarrow>
                                (case updateSatellite lib orbit s2 of
                                   Inl e \<Rightarrow> Inl e
                                 | Inr s3 \<Rightarrow> Inr (True, s3))))))"

definition reset :: "TleLibrary \<Rightarrow> Simulator \<Rightarrow> error + Simulator" where
  "reset lib s =
     initializeSimulation lib
       (s\<lparr>sim_time := Fin 0, sim_position := zeroVec, sim_velocity := zeroVec\<rparr>)"

section \<open>OrbitUtils: distance and collision risk\<close>

definition calculateDistance :: "Simulator \<Rightarrow> Simulator \<Rightarrow> number" where
  "calculateDistance sat1 sat2 =
     (let pos1 = sim_position sat1; pos2 = sim_position sat2
      in Math_sqrt
           (Math_pow (vec_x pos1 - vec_x pos2) 2 +
            Math_pow (vec_y pos1 - vec_y pos2) 2 +
            Math_pow (vec_z pos1 - vec_z pos2) 2))"

datatype RiskLevel = Low | Medium | High

text \<open>
  \<open>predictCollisionRisk\<close> mutates the two simulator objects it is given, which may be one
  and the same object. The objects live in a store, and the function takes their
  references. The sampling loop does not return for the horizon \<open>Infinity\<close>, so it is a
  partial function: \<open>None\<close> is "does not return".
\<close>

type_synonym ref = nat
type_synonym store = "ref \<Rightarrow> Simulator"

partial_function (option) riskLoop ::
  "ref \<Rightarrow> ref \<Rightarrow> number \<Rightarrow> number \<Rightarrow> number \<Rightarrow> number \<Rightarrow> store
     \<Rightarrow> (error + number \<times> number \<times> store) option" where
  "riskLoop sat1 sat2 timeHorizon t minDistance timeToClosestApproach \<sigma> =
     (if t < timeHorizon then
        (case calculatePosition (Some (Fin 60)) (\<sigma> sat1) of
           Inl e \<Rightarrow> Some (Inl e)
         | Inr a \<Rightarrow>
             (case calculatePosition (Some (Fin 60)) ((\<sigma>(sat1 := a)) sat2) of
                Inl e \<Rightarrow> Some (Inl e)
              | Inr b \<Rightarrow>
                  let \<sigma>' = (\<sigma>(sat1 := a))(sat2 := b);
                      distance = calculateDistance (\<sigma>' sat1) (\<sigma>' sat2)
                  in if distance < minDistance
                     then riskLoop sat1 sat2 timeHorizon (t + Fin 60) distance t \<sigma>'
                     else riskLoop sat1 sat2 timeHorizon (t + Fin 60) minDistance
                            timeToClosestApproach \<sigma>'))
      else Some (Inr (minDistance, timeToClosestApproach, \<sigma>)))"

text \<open>The object returned by \<open>predictCollisionRisk\<close>, and the classification by the
  minimum distance that ends the function.\<close>

record CollisionRisk =
  risk :: RiskLevel
  minDistance :: number
  timeToClosestApproach :: number
  probability :: number

definition classifyRisk :: "number \<Rightarrow> number \<Rightarrow> CollisionRisk" where
  "classifyRisk minDist timeToClosest =
     (if minDist < Fin 1 then
        \<lparr>risk = High, minDistance = minDist, timeToClosestApproach = timeToClosest,
         probability = Fin (1 / 1000)\<rparr>
      else if minDist < Fin 5 then
        \<lparr>risk = Medium, minDistance = minDist, timeToClosestApproach = timeToClosest,
         probability = Fin (1 / 10000)\<rparr>
      else
        \<lparr>risk = Low, minDistance = minDist, timeToClosestApproach = timeToClosest,
         probability = Fin (1 / 100000)\<rparr>)"

definition predictCollisionRisk ::
  "store \<Rightarrow> ref \<Rightarrow> ref \<Rightarrow> number option \<Rightarrow> (error + CollisionRisk \<times> store) option" where
  "predictCollisionRisk \<sigma> sat1 sat2 timeHorizon =
     (case riskLoop sat1 sat2 (case timeHorizon of None \<Rightarrow> Fin 3600 | Some h \<Rightarrow> h)
             (Fin 0) PosInfinity (Fin 0) \<sigma> of
        None \<Rightarrow> None
      | Some (Inl e) \<Rightarrow> Some (Inl e)
      | Some (Inr (minDist, timeToClosest, \<sigma>')) \<Rightarrow>
          Some (Inr (classifyRisk minDist timeToClosest, \<sigma>')))"

section \<open>The specification's formulas\<close>

text \<open>
  The advance step as the specification words it: the residual \<open>f(E) = E - e sin E - M\<close>
  of Kepler's equation, the Newton-Raphson step \<open>E - f(E) / f'(E)\<close>, the iterate that is
  returned (the first of \<open>E\<^sub>0 = M, E\<^sub>1, \<dots>, E\<^sub>9\<close> whose residual is below \<open>10\<^sup>-\<^sup>6\<close>, else
  \<open>E\<^sub>1\<^sub>0\<close>), the true anomaly, the radius and the 3-1-3 rotation.
\<close>

definition keplerResidual :: "number \<Rightarrow> number \<Rightarrow> number \<Rightarrow> number" where
  "keplerResidual M e E = E - e * Math_sin E - M"

definition newtonStep :: "number \<Rightarrow> number \<Rightarrow> number \<Rightarrow> number" where
  "newtonStep M e E = E - keplerResidual M e E / (Fin 1 - e * Math_cos E)"

definition converged :: "number \<Rightarrow> number \<Rightarrow> number \<Rightarrow> bool" where
  "converged M e E = (\<bar>keplerResidual M e E\<bar> < Fin (1 / 1000000))"

definition specKepler :: "number \<Rightarrow> number \<Rightarrow> number" where
  "specKepler M e =
     (case find (\<lambda>k. converged M e ((newtonStep M e ^^ k) M)) [0..<10] of
        Some k \<Rightarrow> (newtonStep M e ^^ k) M
      | None \<Rightarrow> (newtonStep M e ^^ 10) M)"

definition specTrueAnomaly :: "number \<Rightarrow> number \<Rightarrow> number" where
  "specTrueAnomaly e E =
     Fin 2 * Math_atan2 (Math_sqrt (Fin 1 + e) * Math_sin (E / Fin 2))
                        (Math_sqrt (Fin 1 - e) * Math_cos (E / Fin 2))"

definition specRadius :: "number \<Rightarrow> number \<Rightarrow> number \<Rightarrow> number" where
  "specRadius a e E = a * (Fin 1 - e * Math_cos E)"

definition rotate313 :: "number \<Rightarrow> number \<Rightarrow> number \<Rightarrow> number \<Rightarrow> number \<Rightarrow> Vec3" where
  "rotate313 raan inc argp xOrb yOrb =
     \<lparr>vec_x = xOrb * (Math_cos raan * Math_cos argp - Math_sin raan * Math_sin argp * Math_cos inc) -
              yOrb * (Math_cos raan * Math_sin argp + Math_sin raan * Math_cos argp * Math_cos inc),
      vec_y = xOrb * (Math_sin raan * Math_cos argp + Math_cos raan * Math_sin argp * Math_cos inc) -
              yOrb * (Math_sin raan * Math_sin argp - Math_cos raan * Math_cos argp * Math_cos inc),
      vec_z = xOrb * Math_sin argp * Math_sin inc + yOrb * Math_cos argp * Math_sin inc\<rparr>"

definition specPosition :: "OrbitalElements \<Rightarrow> number \<Rightarrow> Vec3" where
  "specPosition el elapsed =
     (let M = el_meanAnomaly el + el_meanMotion el * elapsed;
          E = specKepler M (el_eccentricity el);
          nu = specTrueAnomaly (el_eccentricity el) E;
          r = specRadius (el_semiMajorAxis el) (el_eccentricity el) E
      in rotate313 (el_rightAscensionOfAscendingNode el) (el_inclination el)
           (el_argumentOfPeriapsis el) (r * Math_cos nu) (r * Math_sin nu))"

text \<open>
  The simulator after an advance by \<open>dt\<close> on the element set \<open>el\<close>: only the elapsed time
  and the position differ.
\<close>

definition advancedBy :: "OrbitalElements \<Rightarrow> number \<Rightarrow> Simulator \<Rightarrow> Simulator" where
  "advancedBy el dt s =
     s\<lparr>sim_time := sim_time s + dt, sim_position := specPosition el (sim_time s + dt)\<rparr>"


text \<open>
  The condition of the specification for a failing maneuver, read literally: the descriptor
  has neither a velocity change nor a burn duration.
\<close>

definition lacksBoth :: "SuggestedAction \<Rightarrow> bool" where
  "lacksBoth a =
     (case parameters a of None \<Rightarrow> True | Some p \<Rightarrow> deltaV p = None \<and> burnDuration p = None)"

text \<open>
  The estimator's loop without the simulators: \<open>sample k\<close> is the distance after \<open>k\<close>
  steps of 60 s, \<open>sampleDistance\<close> the distance of two simulators after \<open>k\<close> advances.
\<close>

fun scanSamples :: "(nat \<Rightarrow> number) \<Rightarrow> nat \<Rightarrow> real \<Rightarrow> number \<Rightarrow> number \<Rightarrow> number \<times> number" where
  "scanSamples sample 0 t d tca = (d, tca)"
| "scanSamples sample (Suc n) t d tca =
     (if sample 1 < d then scanSamples (\<lambda>k. sample (Suc k)) n (t + 60) (sample 1) (Fin t)
      else scanSamples (\<lambda>k. sample (Suc k)) n (t + 60) d tca)"

definition sampleDistance ::
  "OrbitalElements \<Rightarrow> OrbitalElements \<Rightarrow> Simulator \<Rightarrow> Simulator \<Rightarrow> nat \<Rightarrow> number" where
  "sampleDistance el1 el2 s1 s2 k =
     calculateDistance ((advancedBy el1 (Fin 60) ^^ k) s1) ((advancedBy el2 (Fin 60) ^^ k) s2)"

section \<open>Simulator states\<close>

text \<open>
  The default of the parameter \<open>timeStep\<close>.
\<close>

fun timeStepOr1 :: "number option \<Rightarrow> number" where
  "timeStepOr1 None = Fin 1"
| "timeStepOr1 (Some d) = d"

text \<open>
  The simulator that the constructor leaves for a satellite without a two-line element set
  (lemma \<open>createSatelliteSimulator_elements\<close>).
\<close>

definition initialState :: "Satellite \<Rightarrow> Simulator" where
  "initialState sat =
     \<lparr>sim_satellite = sat, sim_time = Fin 1,
      sim_position = specPosition (calculateOrbitalElements sat) (Fin 1),
      sim_velocity = zeroVec,
      sim_orbitalElements = Some (calculateOrbitalElements sat),
      sim_satrec = None\<rparr>"

text \<open>
  The simulator after the burn of \<open>executeAction\<close>, before a replacement element set is
  applied.
\<close>

definition burnedState :: "number \<Rightarrow> number \<Rightarrow> Simulator \<Rightarrow> Simulator" where
  "burnedState dv bd s =
     (let velocityMagnitude = Math_sqrt
            (Math_pow (vec_x (sim_velocity s)) 2 + Math_pow (vec_y (sim_velocity s)) 2 +
             Math_pow (vec_z (sim_velocity s)) 2);
          newVelocityMagnitude = velocityMagnitude + dv / bd * bd / Fin 1000;
          scale = newVelocityMagnitude / velocityMagnitude
      in s\<lparr>sim_velocity :=
             \<lparr>vec_x = vec_x (sim_velocity s) * scale,
              vec_y = vec_y (sim_velocity s) * scale,
              vec_z = vec_z (sim_velocity s) * scale\<rparr>,
           sim_satellite := (sim_satellite s)\<lparr>sat_velocity := newVelocityMagnitude\<rparr>\<rparr>)"

text \<open>
  A maneuver parameter that JavaScript takes for false: absent, zero or \<open>NaN\<close>.
\<close>

definition lacking :: "number option \<Rightarrow> bool" where
  "lacking v = (v = None \<or> v = Some (Fin 0) \<or> v = Some NaN)"



text \<open>
  \<open>reachable sat s\<close>: the simulator \<open>s\<close> was constructed for \<open>sat\<close> and has since been
  through any calls of \<open>calculatePosition\<close>, \<open>executeAction\<close>, \<open>updateSatellite\<close> and
  \<open>reset\<close>. \<open>keepsOrbit sat s\<close>: the same without \<open>updateSatellite\<close> and with maneuvers
  that carry no replacement element set. \<open>coasting sat s\<close>: advanced and reset only. The
  external library may answer differently at each call.
\<close>

inductive reachable :: "Satellite \<Rightarrow> Simulator \<Rightarrow> bool" for sat where
  created: "createSatelliteSimulator lib sat = Inr s \<Longrightarrow> reachable sat s"
| advanced: "reachable sat s \<Longrightarrow> calculatePosition timeStep s = Inr s' \<Longrightarrow> reachable sat s'"
| maneuvered: "reachable sat s \<Longrightarrow> executeAction lib a s = Inr (b, s') \<Longrightarrow> reachable sat s'"
| updated: "reachable sat s \<Longrightarrow> updateSatellite lib new s = Inr s' \<Longrightarrow> reachable sat s'"
| wasReset: "reachable sat s \<Longrightarrow> reset lib s = Inr s' \<Longrightarrow> reachable sat s'"




text \<open>
  Vectors and element sets without \<open>Infinity\<close> and \<open>NaN\<close>.
\<close>

definition finiteVec :: "Vec3 \<Rightarrow> bool" where
  "finiteVec v \<longleftrightarrow> (\<exists>a b c. v = \<lparr>vec_x = Fin a, vec_y = Fin b, vec_z = Fin c\<rparr>)"

definition finiteElements :: "OrbitalElements \<Rightarrow> bool" where
  "finiteElements el \<longleftrightarrow>
     (\<exists>a e i raan argp n m.
        el_semiMajorAxis el = Fin a \<and> el_eccentricity el = Fin e \<and> - 1 < e \<and> e < 1 \<and>
        el_inclination el = Fin i \<and> el_rightAscensionOfAscendingNode el = Fin raan \<and>
        el_argumentOfPeriapsis el = Fin argp \<and> el_meanMotion el = Fin n \<and>
        el_meanAnomaly el = Fin m)"

section \<open>Example inputs\<close>

definition exampleSatellite :: Satellite where
  "exampleSatellite =
     \<lparr>sat_id = ''sat-1'', sat_name = ''Example'', sat_orbitType = LEO,
      sat_altitude = Fin 400, sat_inclination = Fin (516 / 10), sat_velocity = Fin (766 / 100),
      sat_status = None, sat_tle = None, sat_eccentricity = Some (Fin (1 / 100)),
      sat_argumentOfPeriapsis = Some (Fin 0), sat_rightAscensionOfAscendingNode = None,
      sat_meanAnomaly = None, sat_currentPosition = None, sat_currentVelocity = None,
      sat_lastUpdated = None, sat_noradId = None\<rparr>"

definition geoSatellite :: Satellite where
  "geoSatellite = exampleSatellite\<lparr>sat_id := ''sat-2'', sat_orbitType := GEO,
     sat_altitude := Fin 35786, sat_inclination := Fin 0, sat_eccentricity := None,
     sat_argumentOfPeriapsis := None\<rparr>"




definition exampleTLE :: TLE where
  "exampleTLE = \<lparr>line1 = ''1 25544U 98067A'', line2 = ''2 25544  51.6''\<rparr>"

definition tleSatellite :: Satellite where
  "tleSatellite = exampleSatellite\<lparr>sat_id := ''sat-3'', sat_tle := Some exampleTLE\<rparr>"

definition noFix :: TleLibrary where
  "noFix satrec = \<lparr>fix_position = None, fix_velocity = None, fix_height = Fin 0\<rparr>"

definition exampleFix :: TleLibrary where
  "exampleFix satrec =
     \<lparr>fix_position = Some \<lparr>vec_x = Fin 6771, vec_y = Fin 0, vec_z = Fin 0\<rparr>,
      fix_velocity = Some \<lparr>vec_x = Fin 0, vec_y = Fin (15 / 2), vec_z = Fin 0\<rparr>,
      fix_height = Fin 400\<rparr>"

definition exampleAction :: "ManeuverParameters option \<Rightarrow> SuggestedAction" where
  "exampleAction params =
     \<lparr>action_id = ''act-1'', action_type = OrbitAdjustment, description = ''raise orbit'',
      priority = PriorityHigh, estimatedFuelCost = None, estimatedTimeToExecute = None,
      successProbability = None, parameters = params\<rparr>"

definition emptyParameters :: ManeuverParameters where
  "emptyParameters = \<lparr>deltaV = None, burnDuration = None, newOrbit = None\<rparr>"

definition deltaVOnly :: ManeuverParameters where
  "deltaVOnly = \<lparr>deltaV = Some (Fin 5), burnDuration = None, newOrbit = None\<rparr>"

definition zeroDeltaV :: ManeuverParameters where
  "zeroDeltaV = \<lparr>deltaV = Some (Fin 0), burnDuration = Some (Fin 10), newOrbit = None\<rparr>"

definition smallBurn :: ManeuverParameters where
  "smallBurn = \<lparr>deltaV = Some (Fin 5), burnDuration = Some (Fin 10), newOrbit = None\<rparr>"




text \<open>
  The simulator that the constructor leaves for \<open>tleSatellite\<close> with the answers of
  \<open>exampleFix\<close> (lemma \<open>createSatelliteSimulator_tle\<close>), and two stores of simulators, before
  and after an estimate.
\<close>

definition tleState :: Simulator where
  "tleState =
     \<lparr>sim_satellite = tleSatellite\<lparr>sat_altitude := Fin 400\<rparr>, sim_time = Fin 0,
      sim_position = \<lparr>vec_x = Fin 6771, vec_y = Fin 0, vec_z = Fin 0\<rparr>,
      sim_velocity = \<lparr>vec_x = Fin 0, vec_y = Fin (15 / 2), vec_z = Fin 0\<rparr>,
      sim_orbitalElements = None, sim_satrec = Some exampleTLE\<rparr>"

definition exampleStore :: store where
  "exampleStore r =
     (if r = 0 then initialState exampleSatellite
      else if r = 1 then initialState geoSatellite
      else tleState)"

definition exampleStoreAfter :: store where
  "exampleStoreAfter = exampleStore
     (0 := advancedBy (calculateOrbitalElements exampleSatellite) (Fin 60) (exampleStore 0),
      1 := advancedBy (calculateOrbitalElements geoSatellite) (Fin 60) (exampleStore 1))"

definition exampleEstimate :: CollisionRisk where
  "exampleEstimate =
     classifyRisk (calculateDistance (exampleStoreAfter 0) (exampleStoreAfter 1)) (Fin 0)"




section \<open>Properties\<close>

subsection \<open>Numbers\<close>

lemma truthy_iff: "truthy v \<longleftrightarrow> v \<noteq> Fin 0 \<and> v \<noteq> NaN"
  by (cases v) simp_all

lemma less_eq_Fin [simp]: "Fin a \<le> Fin b \<longleftrightarrow> a \<le> b"
  by (auto simp: less_eq_number_def)



lemma less_number_trans: "a < b \<Longrightarrow> b < c \<Longrightarrow> a < (c::number)"
  by (cases a; cases b; cases c) auto

lemma less_number_irrefl: "\<not> a < (a::number)"
  by (cases a) auto

lemma less_number_asym: "a < b \<Longrightarrow> \<not> b < (a::number)"
  by (cases a; cases b) auto

lemma plus_Fin_assoc: "(x + Fin a) + Fin b = x + Fin (a + b)"
  by (cases x) simp_all

subsection \<open>The Kepler solver\<close>

lemma find_map_image: "find P (map f xs) = map_option f (find (\<lambda>x. P (f x)) xs)"
  by (induction xs) simp_all

lemma find_upt_Suc:
  "find P [0..<Suc n] = (if P 0 then Some 0 else map_option Suc (find (\<lambda>k. P (Suc k)) [0..<n]))"
proof -
  have "[0..<Suc n] = 0 # map Suc [0..<n]"
    by (simp only: map_Suc_upt upt_conv_Cons [OF zero_less_Suc])
  then show ?thesis
    by (simp add: find_map_image del: upt_Suc)
qed

lemma keplerLoop_step:
  "keplerLoop (Suc n) M e E =
     (if converged M e E then E else keplerLoop n M e (newtonStep M e E))"
  by (simp add: Let_def converged_def keplerResidual_def newtonStep_def)

lemma keplerLoop_find:
  "keplerLoop n M e E =
     (case find (\<lambda>k. converged M e ((newtonStep M e ^^ k) E)) [0..<n] of
        Some k \<Rightarrow> (newtonStep M e ^^ k) E
      | None \<Rightarrow> (newtonStep M e ^^ n) E)"
proof (induction n arbitrary: E)
  case 0
  show ?case by simp
next
  case (Suc n)
  show ?case
  proof (cases "converged M e E")
    case True
    then show ?thesis
      by (simp add: keplerLoop_step find_upt_Suc del: upt_Suc keplerLoop.simps)
  next
    case False
    then show ?thesis
      by (simp add: keplerLoop_step find_upt_Suc Suc.IH funpow_swap1
          del: upt_Suc keplerLoop.simps split: option.splits)
  qed
qed

lemma solveKeplersEquation_spec: "solveKeplersEquation M e 10 = specKepler M e"
  by (simp only: solveKeplersEquation_def specKepler_def keplerLoop_find)

subsection \<open>Advancing and initialising\<close>

lemma calculatePosition_eq:
  assumes "sim_orbitalElements s = Some el"
  shows "calculatePosition timeStep s =
           Inr (s\<lparr>sim_time := sim_time s + timeStepOr1 timeStep,
                  sim_position := specPosition el (sim_time s + timeStepOr1 timeStep)\<rparr>)"
proof -
  have t: "(case timeStep of None \<Rightarrow> Fin 1 | Some d \<Rightarrow> d) = timeStepOr1 timeStep"
    by (cases timeStep) simp_all
  show ?thesis
    unfolding calculatePosition_def t
    by (simp add: assms Let_def specPosition_def solveKeplersEquation_spec
        specTrueAnomaly_def specRadius_def rotate313_def)
qed


lemma calculatePosition_advancedBy:
  "sim_orbitalElements s = Some el \<Longrightarrow>
   calculatePosition (Some dt) s = Inr (advancedBy el dt s)"
  by (simp add: calculatePosition_eq advancedBy_def)

lemma advancedBy_elements [simp]:
  "sim_orbitalElements (advancedBy el dt s) = sim_orbitalElements s"
  by (simp add: advancedBy_def)

lemma advancedBy_twice:
  "advancedBy el (Fin b) (advancedBy el (Fin a) s) = advancedBy el (Fin (a + b)) s"
  by (simp add: advancedBy_def plus_Fin_assoc)

lemma funpow_advancedBy:
  "(advancedBy el (Fin 60) ^^ Suc n) s = advancedBy el (Fin (60 * real (Suc n))) s"
proof (induction n)
  case 0
  show ?case by simp
next
  case (Suc n)
  have "(advancedBy el (Fin 60) ^^ Suc (Suc n)) s =
          advancedBy el (Fin 60) ((advancedBy el (Fin 60) ^^ Suc n) s)"
    by simp
  also have "\<dots> = advancedBy el (Fin (60 * real (Suc n) + 60)) s"
    by (simp only: Suc.IH advancedBy_twice)
  also have "60 * real (Suc n) + 60 = 60 * real (Suc (Suc n))"
    by simp
  finally show ?case .
qed

lemma funpow_elements [simp]:
  "sim_orbitalElements ((advancedBy el dt ^^ n) s) = sim_orbitalElements s"
  by (induction n) simp_all

lemma initializeSimulation_elements:
  assumes "sat_tle (sim_satellite s) = None"
  shows "initializeSimulation lib s =
           Inr (s\<lparr>sim_time := sim_time s + Fin 1,
                  sim_position :=
                    specPosition (calculateOrbitalElements (sim_satellite s)) (sim_time s + Fin 1),
                  sim_orbitalElements := Some (calculateOrbitalElements (sim_satellite s))\<rparr>)"
  by (simp add: initializeSimulation_def assms calculatePosition_eq)

lemma initializeSimulation_total: "\<exists>s'. initializeSimulation lib s = Inr s'"
  by (cases "sat_tle (sim_satellite s)")
     (simp_all add: initializeSimulation_elements, simp add: initializeSimulation_def)

lemma updatePositionFromTLE_elements [simp]:
  "sim_orbitalElements (updatePositionFromTLE lib s) = sim_orbitalElements s"
  by (simp add: updatePositionFromTLE_def Let_def split: option.splits)

lemma initializeSimulation_keeps_elements:
  assumes "initializeSimulation lib s = Inr s'" and "sim_orbitalElements s \<noteq> None"
  shows "sim_orbitalElements s' \<noteq> None"
proof (cases "sat_tle (sim_satellite s)")
  case None
  with assms(1) show ?thesis by (auto simp: initializeSimulation_elements)
next
  case (Some t)
  with assms show ?thesis by (auto simp: initializeSimulation_def)
qed

lemma createSatelliteSimulator_elements:
  "sat_tle sat = None \<Longrightarrow> createSatelliteSimulator lib sat = Inr (initialState sat)"
  by (simp add: createSatelliteSimulator_def initializeSimulation_elements initialState_def)

lemma createSatelliteSimulator_elements_of:
  assumes "sat_tle sat = None" and "createSatelliteSimulator lib sat = Inr s"
  shows "sim_orbitalElements s = Some (calculateOrbitalElements sat)"
  using assms by (auto simp: createSatelliteSimulator_elements initialState_def)

lemma createSatelliteSimulator_tle:
  "createSatelliteSimulator exampleFix tleSatellite = Inr tleState"
  by (simp add: createSatelliteSimulator_def initializeSimulation_def tleSatellite_def
      updatePositionFromTLE_def exampleFix_def tleState_def Let_def zeroVec_def)


subsection \<open>The branches of executeAction\<close>

lemma lacking_iff: "lacking v \<longleftrightarrow> (case v of None \<Rightarrow> True | Some x \<Rightarrow> \<not> truthy x)"
  by (auto simp: lacking_def truthy_iff split: option.splits)

lemma executeAction_no_parameters:
  "parameters a = None \<Longrightarrow> executeAction lib a s = Inr (False, s)"
  by (simp add: executeAction_def)

lemma executeAction_lacking:
  "parameters a = Some p \<Longrightarrow> lacking (deltaV p) \<or> lacking (burnDuration p)
     \<Longrightarrow> executeAction lib a s = Inr (False, s)"
  by (auto simp: executeAction_def lacking_iff split: option.splits)

lemma executeAction_burn:
  assumes "parameters a = Some p" "deltaV p = Some dv" "burnDuration p = Some bd"
    "truthy dv" "truthy bd"
  shows "executeAction lib a s =
           (case newOrbit p of
              None \<Rightarrow> Inr (True, burnedState dv bd s)
            | Some orbit \<Rightarrow>
                (case updateSatellite lib orbit (burnedState dv bd s) of
                   Inl e \<Rightarrow> Inl e
                 | Inr s3 \<Rightarrow> Inr (True, s3)))"
  by (cases "newOrbit p") (simp_all add: executeAction_def assms burnedState_def Let_def)

lemma updateSatellite_total: "\<exists>s'. updateSatellite lib orbit s = Inr s'"
  by (simp add: updateSatellite_def initializeSimulation_total)

lemma executeAction_burn_returns_true:
  assumes "parameters a = Some p" "deltaV p = Some dv" "burnDuration p = Some bd"
    "truthy dv" "truthy bd"
  shows "\<exists>s'. executeAction lib a s = Inr (True, s')"
proof (cases "newOrbit p")
  case None
  then show ?thesis by (simp add: executeAction_burn [OF assms])
next
  case (Some orbit)
  obtain s3 where "updateSatellite lib orbit (burnedState dv bd s) = Inr s3"
    using updateSatellite_total by blast
  then show ?thesis by (simp add: executeAction_burn [OF assms] Some)
qed

lemma executeAction_cases:
  obtains (fails) "parameters a = None \<or> (\<exists>p. parameters a = Some p \<and> (lacking (deltaV p) \<or> lacking (burnDuration p)))"
  | (burns) p dv bd where "parameters a = Some p" "deltaV p = Some dv" "burnDuration p = Some bd"
      "truthy dv" "truthy bd"
proof (cases "parameters a")
  case None
  then show ?thesis using fails by simp
next
  case (Some p)
  show ?thesis
  proof (cases "lacking (deltaV p) \<or> lacking (burnDuration p)")
    case True
    then show ?thesis using fails Some by simp
  next
    case False
    then obtain dv bd where "deltaV p = Some dv" "burnDuration p = Some bd" "truthy dv" "truthy bd"
      by (auto simp: lacking_iff split: option.splits)
    then show ?thesis using burns Some by blast
  qed
qed

lemma burnedState_frame:
  "sim_orbitalElements (burnedState dv bd s) = sim_orbitalElements s"
  "sat_tle (sim_satellite (burnedState dv bd s)) = sat_tle (sim_satellite s)"
  by (simp_all add: burnedState_def Let_def)



subsection \<open>Invariants of the reachable states\<close>

lemma calculateOrbitalElements_velocity [simp]:
  "calculateOrbitalElements (sat\<lparr>sat_velocity := v\<rparr>) = calculateOrbitalElements sat"
  by (simp add: calculateOrbitalElements_def Let_def)





lemma reachable_has_elements:
  assumes "sat_tle sat = None" and "reachable sat s"
  shows "sim_orbitalElements s \<noteq> None"
  using assms(2)
proof induction
  case (created lib s)
  then show ?case
    by (auto simp: createSatelliteSimulator_elements assms(1) initialState_def)
next
  case (advanced s timeStep s')
  then show ?case by (auto simp: calculatePosition_eq)
next
  case (maneuvered s lib a b s')
  show ?case
  proof (cases a rule: executeAction_cases)
    case fails
    then have "executeAction lib a s = Inr (False, s)"
      by (auto simp: executeAction_no_parameters executeAction_lacking)
    with maneuvered show ?thesis by simp
  next
    case (burns p dv bd)
    have b: "sim_orbitalElements (burnedState dv bd s) \<noteq> None"
      using maneuvered.IH by (simp add: burnedState_frame)
    show ?thesis
    proof (cases "newOrbit p")
      case None
      with maneuvered(2) burns b show ?thesis by (simp add: executeAction_burn)
    next
      case (Some orbit)
      with maneuvered(2) burns
      have "updateSatellite lib orbit (burnedState dv bd s) = Inr s'"
        by (simp add: executeAction_burn split: sum.splits)
      then show ?thesis
        unfolding updateSatellite_def
        by (rule initializeSimulation_keeps_elements) (use b in simp)
    qed
  qed
next
  case (updated s lib new s')
  from updated(2) show ?case
    unfolding updateSatellite_def
    by (rule initializeSimulation_keeps_elements) (use updated.IH in simp)
next
  case (wasReset s lib s')
  from wasReset(2) show ?case
    unfolding reset_def
    by (rule initializeSimulation_keeps_elements) (use wasReset.IH in simp)
qed

lemma reachable_initialState: "sat_tle sat = None \<Longrightarrow> reachable sat (initialState sat)"
  by (rule reachable.created [where lib = noFix]) (rule createSatelliteSimulator_elements)

subsection \<open>Advancing by a time step\<close>

text \<open>
  Claim C1. For a simulator initialised from explicit orbital elements (no two-line element
  set), whatever has been called on it since, \<open>calculatePosition dt\<close> first adds \<open>dt\<close> to the
  elapsed time and then stores as the position the point \<open>specPosition\<close> of the
  specification for its element set at the new elapsed time: mean anomaly
  \<open>M\<^sub>0 + meanMotion * elapsed\<close>, Newton-Raphson from \<open>E\<^sub>0 = M\<close> with the \<open>10\<^sup>-\<^sup>6\<close> stop and the cap
  of 10 iterations, true anomaly by the half-angle \<open>atan2\<close>, radius \<open>a (1 - e cos E)\<close>, and
  the 3-1-3 rotation of \<open>(r cos \<nu>, r sin \<nu>)\<close>. No other field changes.
\<close>

theorem advance_computes_position:
  assumes "sat_tle sat = None" and "reachable sat s"
  shows "\<exists>el. sim_orbitalElements s = Some el \<and>
           calculatePosition (Some dt) s =
             Inr (s\<lparr>sim_time := sim_time s + dt,
                    sim_position := specPosition el (sim_time s + dt)\<rparr>)"
proof -
  obtain el where "sim_orbitalElements s = Some el"
    using reachable_has_elements [OF assms] by blast
  then show ?thesis by (simp add: calculatePosition_eq)
qed

theorem advance_computes_position_witness:
  "sat_tle exampleSatellite = None \<and> reachable exampleSatellite (initialState exampleSatellite) \<and>
   sim_orbitalElements (initialState exampleSatellite) =
     Some (calculateOrbitalElements exampleSatellite) \<and>
   calculatePosition (Some (Fin 60)) (initialState exampleSatellite) =
     Inr ((initialState exampleSatellite)\<lparr>sim_time := Fin 61,
            sim_position := specPosition (calculateOrbitalElements exampleSatellite) (Fin 61)\<rparr>)"
proof -
  have h1: "sat_tle exampleSatellite = None"
    by (simp add: exampleSatellite_def)
  have h2: "reachable exampleSatellite (initialState exampleSatellite)"
    using h1 by (rule reachable_initialState)
  have el: "sim_orbitalElements (initialState exampleSatellite) =
      Some (calculateOrbitalElements exampleSatellite)"
    and t: "sim_time (initialState exampleSatellite) + Fin 60 = Fin 61"
    by (simp_all add: initialState_def)
  from advance_computes_position [OF h1 h2, of "Fin 60"] h1 h2 el show ?thesis
    by (simp add: t)
qed

subsection \<open>Reset\<close>



subsection \<open>Initial orbital elements\<close>

lemma calculateOrbitalElements_LEO:
  assumes "sat_orbitType sat = LEO"
  shows "el_eccentricity (calculateOrbitalElements sat) = orElse (sat_eccentricity sat) (Fin (1 / 100))"
    and "el_argumentOfPeriapsis (calculateOrbitalElements sat) =
           orElse (sat_argumentOfPeriapsis sat) (Fin 0) * Fin pi / Fin 180"
    and "el_rightAscensionOfAscendingNode (calculateOrbitalElements sat) = Fin 0"
    and "el_meanAnomaly (calculateOrbitalElements sat) = Fin 0"
  by (simp_all add: calculateOrbitalElements_def Let_def assms)

lemma calculateOrbitalElements_Polar:
  assumes "sat_orbitType sat = Polar"
  shows "el_eccentricity (calculateOrbitalElements sat) = Fin 0"
    and "el_argumentOfPeriapsis (calculateOrbitalElements sat) = Fin 0"
    and "el_rightAscensionOfAscendingNode (calculateOrbitalElements sat) =
           orElse (sat_rightAscensionOfAscendingNode sat) (Fin 0) * Fin pi / Fin 180"
    and "el_meanAnomaly (calculateOrbitalElements sat) =
           orElse (sat_meanAnomaly sat) (Fin 0) * Fin pi / Fin 180"
  by (simp_all add: calculateOrbitalElements_def Let_def assms)

lemma calculateOrbitalElements_other:
  assumes "sat_orbitType sat \<noteq> LEO" and "sat_orbitType sat \<noteq> Polar"
  shows "el_eccentricity (calculateOrbitalElements sat) = Fin 0"
    and "el_argumentOfPeriapsis (calculateOrbitalElements sat) = Fin 0"
    and "el_rightAscensionOfAscendingNode (calculateOrbitalElements sat) = Fin 0"
    and "el_meanAnomaly (calculateOrbitalElements sat) = Fin 0"
  by (simp_all add: calculateOrbitalElements_def Let_def assms)

text \<open>
  Claim C6, as amended. The claim makes 0.01 the default eccentricity of every orbit class;
  the code sets the orbit-specific elements per class. For a satellite without a two-line
  element set the constructor leaves: for class LEO the supplied eccentricity, or 0.01 when
  it is absent, zero or \<open>NaN\<close>, and the supplied argument of periapsis in radians, or 0, with
  RAAN and mean anomaly 0 whatever was supplied; for class Polar the supplied RAAN and mean
  anomaly in radians, or 0, with eccentricity 0 and argument of periapsis 0 whatever was
  supplied; for GEO and MEO all four are 0.
\<close>

theorem initial_elements_by_orbit_class:
  assumes "sat_tle sat = None" and "createSatelliteSimulator lib sat = Inr s"
  shows "\<exists>el. sim_orbitalElements s = Some el \<and>
           (el_eccentricity el, el_argumentOfPeriapsis el,
            el_rightAscensionOfAscendingNode el, el_meanAnomaly el) =
           (case sat_orbitType sat of
              LEO \<Rightarrow> (orElse (sat_eccentricity sat) (Fin (1 / 100)),
                      orElse (sat_argumentOfPeriapsis sat) (Fin 0) * Fin pi / Fin 180,
                      Fin 0, Fin 0)
            | Polar \<Rightarrow> (Fin 0, Fin 0,
                        orElse (sat_rightAscensionOfAscendingNode sat) (Fin 0) * Fin pi / Fin 180,
                        orElse (sat_meanAnomaly sat) (Fin 0) * Fin pi / Fin 180)
            | GEO \<Rightarrow> (Fin 0, Fin 0, Fin 0, Fin 0)
            | MEO \<Rightarrow> (Fin 0, Fin 0, Fin 0, Fin 0))"
proof -
  have "sim_orbitalElements s = Some (calculateOrbitalElements sat)"
    using assms by (rule createSatelliteSimulator_elements_of)
  then show ?thesis
    by (cases "sat_orbitType sat")
       (simp_all add: calculateOrbitalElements_LEO calculateOrbitalElements_Polar
          calculateOrbitalElements_other)
qed

theorem initial_elements_by_orbit_class_witness:
  "sat_tle geoSatellite = None \<and>
   createSatelliteSimulator noFix geoSatellite = Inr (initialState geoSatellite) \<and>
   (\<exists>el. sim_orbitalElements (initialState geoSatellite) = Some el \<and>
      (el_eccentricity el, el_argumentOfPeriapsis el,
       el_rightAscensionOfAscendingNode el, el_meanAnomaly el) = (Fin 0, Fin 0, Fin 0, Fin 0))"
proof -
  have h1: "sat_tle geoSatellite = None"
    by (simp add: geoSatellite_def exampleSatellite_def)
  have h2: "createSatelliteSimulator noFix geoSatellite = Inr (initialState geoSatellite)"
    using h1 by (rule createSatelliteSimulator_elements)
  have "sat_orbitType geoSatellite = GEO"
    by (simp add: geoSatellite_def)
  with initial_elements_by_orbit_class [OF h1 h2] h1 h2 show ?thesis
    by simp
qed

text \<open>
  Claim C6 as stated fails: a GEO satellite with no eccentricity supplied gets the
  eccentricity 0, not 0.01.
\<close>

theorem eccentricity_default_counterexample:
  "sat_tle geoSatellite = None \<and> sat_eccentricity geoSatellite = None \<and>
   createSatelliteSimulator noFix geoSatellite = Inr (initialState geoSatellite) \<and>
   map_option el_eccentricity (sim_orbitalElements (initialState geoSatellite)) = Some (Fin 0) \<and>
   map_option el_eccentricity (sim_orbitalElements (initialState geoSatellite)) \<noteq> Some (Fin (1 / 100))"
proof -
  have h1: "sat_tle geoSatellite = None"
    by (simp add: geoSatellite_def exampleSatellite_def)
  have h2: "createSatelliteSimulator noFix geoSatellite = Inr (initialState geoSatellite)"
    using h1 by (rule createSatelliteSimulator_elements)
  have h3: "sat_eccentricity geoSatellite = None"
    by (simp add: geoSatellite_def)
  have "sat_orbitType geoSatellite \<noteq> LEO" "sat_orbitType geoSatellite \<noteq> Polar"
    by (simp_all add: geoSatellite_def)
  then have "el_eccentricity (calculateOrbitalElements geoSatellite) = Fin 0"
    by (rule calculateOrbitalElements_other)
  then have e: "map_option el_eccentricity (sim_orbitalElements (initialState geoSatellite)) = Some (Fin 0)"
    by (simp add: initialState_def)
  show ?thesis by (simp add: h1 h2 h3 e)
qed

subsection \<open>The invariant of the specification\<close>

lemma meanMotion_positive:
  assumes "sat_altitude sat = Fin h" and "0 < h"
  shows "el_semiMajorAxis (calculateOrbitalElements sat) = Fin (h + 6371)"
    and "\<exists>n. 0 < n \<and> el_meanMotion (calculateOrbitalElements sat) = Fin n"
proof -
  define q where "q = (h + 6371) * ((h + 6371) * (h + 6371)) / (3986004418 / 10000)"
  define P where "P = 2 * pi * sqrt q"
  have "0 < h + 6371" using assms(2) by simp
  then have q: "0 < q" by (simp add: q_def)
  then have P: "0 < P" by (simp add: P_def)
  have pow: "Math_pow (Fin (h + 6371)) 3 = Fin ((h + 6371) * ((h + 6371) * (h + 6371)))"
    by (simp add: numeral_3_eq_3)
  have "Fin ((h + 6371) * ((h + 6371) * (h + 6371))) / Fin (3986004418 / 10000) = Fin q"
    by (simp add: q_def)
  then have "Math_sqrt (Math_pow (Fin (h + 6371)) 3 / Fin (3986004418 / 10000)) = Fin (sqrt q)"
    using q by (simp only: pow Math_sqrt.simps) simp
  then have period:
    "Fin 2 * Fin pi * Math_sqrt (Math_pow (Fin (h + 6371)) 3 / Fin (3986004418 / 10000)) = Fin P"
    by (simp add: P_def)
  have motion: "Fin 2 * Fin pi / Fin P = Fin (2 * pi / P)"
    using P by simp
  have sel: "el_semiMajorAxis (calculateOrbitalElements sat) = sat_altitude sat + Fin 6371"
    "el_meanMotion (calculateOrbitalElements sat) =
       Fin 2 * Fin pi /
       (Fin 2 * Fin pi * Math_sqrt (Math_pow (sat_altitude sat + Fin 6371) 3 / Fin (3986004418 / 10000)))"
    by (simp_all add: calculateOrbitalElements_def Let_def)
  show "el_semiMajorAxis (calculateOrbitalElements sat) = Fin (h + 6371)"
    by (simp add: sel assms(1))
  have "el_meanMotion (calculateOrbitalElements sat) = Fin (2 * pi / P)"
    unfolding sel assms(1) plus_number.simps period motion ..
  moreover have "0 < 2 * pi / P" using P by simp
  ultimately show "\<exists>n. 0 < n \<and> el_meanMotion (calculateOrbitalElements sat) = Fin n"
    by blast
qed




subsection \<open>Failing maneuvers\<close>

text \<open>
  Claim C4, as amended. \<open>executeAction\<close> returns false and changes nothing exactly when the
  action has no parameter set or at least one of \<open>deltaV\<close> and \<open>burnDuration\<close> is absent,
  zero or \<open>NaN\<close>; otherwise it returns true. In particular it returns false on an empty
  parameter set and leaves the simulator as it was.
\<close>

theorem executeAction_fails_iff:
  "(parameters a = None \<or>
      (\<exists>p. parameters a = Some p \<and> (lacking (deltaV p) \<or> lacking (burnDuration p)))
    \<longrightarrow> executeAction lib a s = Inr (False, s)) \<and>
   (\<not> (parameters a = None \<or>
      (\<exists>p. parameters a = Some p \<and> (lacking (deltaV p) \<or> lacking (burnDuration p))))
    \<longrightarrow> (\<exists>s'. executeAction lib a s = Inr (True, s')))"
proof (cases a rule: executeAction_cases)
  case fails
  then have "executeAction lib a s = Inr (False, s)"
    by (auto simp: executeAction_no_parameters executeAction_lacking)
  with fails show ?thesis by blast
next
  case (burns p dv bd)
  then have "\<exists>s'. executeAction lib a s = Inr (True, s')"
    by (rule executeAction_burn_returns_true)
  then show ?thesis by (auto simp: burns lacking_iff)
qed

theorem executeAction_fails_iff_witness:
  "parameters (exampleAction (Some emptyParameters)) = Some emptyParameters \<and>
   lacking (deltaV emptyParameters) \<and>
   executeAction noFix (exampleAction (Some emptyParameters)) (initialState exampleSatellite) =
     Inr (False, initialState exampleSatellite) \<and>
   parameters (exampleAction (Some smallBurn)) = Some smallBurn \<and>
   \<not> lacking (deltaV smallBurn) \<and> \<not> lacking (burnDuration smallBurn) \<and>
   (\<exists>s'. executeAction noFix (exampleAction (Some smallBurn)) (initialState exampleSatellite) =
      Inr (True, s'))"
proof -
  have e: "parameters (exampleAction (Some emptyParameters)) = Some emptyParameters"
    "lacking (deltaV emptyParameters)"
    by (simp_all add: exampleAction_def emptyParameters_def lacking_def)
  have b: "parameters (exampleAction (Some smallBurn)) = Some smallBurn"
    "\<not> lacking (deltaV smallBurn)" "\<not> lacking (burnDuration smallBurn)"
    by (simp_all add: exampleAction_def smallBurn_def lacking_def)
  from executeAction_fails_iff [of "exampleAction (Some emptyParameters)" noFix
      "initialState exampleSatellite"] e
  have 1: "executeAction noFix (exampleAction (Some emptyParameters)) (initialState exampleSatellite) =
     Inr (False, initialState exampleSatellite)"
    by simp
  from executeAction_fails_iff [of "exampleAction (Some smallBurn)" noFix
      "initialState exampleSatellite"] b
  have 2: "\<exists>s'. executeAction noFix (exampleAction (Some smallBurn)) (initialState exampleSatellite) =
      Inr (True, s')"
    by simp
  from e b 1 2 show ?thesis by blast
qed

text \<open>
  Claim C4 as stated fails: the call also returns false for a descriptor that has a
  \<open>deltaV\<close> of 5 and no burn duration, and for one that has both, with \<open>deltaV\<close> 0.
\<close>

theorem executeAction_lacks_one_counterexample:
  "executeAction noFix (exampleAction (Some deltaVOnly)) (initialState exampleSatellite) =
     Inr (False, initialState exampleSatellite) \<and>
   \<not> lacksBoth (exampleAction (Some deltaVOnly)) \<and>
   executeAction noFix (exampleAction (Some zeroDeltaV)) (initialState exampleSatellite) =
     Inr (False, initialState exampleSatellite) \<and>
   \<not> lacksBoth (exampleAction (Some zeroDeltaV))"
  by (simp add: executeAction_def exampleAction_def deltaVOnly_def zeroDeltaV_def lacksBoth_def)

subsection \<open>A burn from the zero velocity\<close>






subsection \<open>The sampling loop of the estimator\<close>

lemma riskLoop_stop:
  "\<not> t < H \<Longrightarrow> riskLoop sat1 sat2 H t d tca \<sigma> = Some (Inr (d, tca, \<sigma>))"
  by (subst riskLoop.simps) simp

lemma riskLoop_step:
  assumes "t < H" and "sat1 \<noteq> sat2"
    and "sim_orbitalElements (\<sigma> sat1) = Some el1"
    and "sim_orbitalElements (\<sigma> sat2) = Some el2"
  shows "riskLoop sat1 sat2 H t d tca \<sigma> =
           (let \<sigma>' = \<sigma>(sat1 := advancedBy el1 (Fin 60) (\<sigma> sat1),
                         sat2 := advancedBy el2 (Fin 60) (\<sigma> sat2));
                distance = calculateDistance (\<sigma>' sat1) (\<sigma>' sat2)
            in if distance < d then riskLoop sat1 sat2 H (t + Fin 60) distance t \<sigma>'
               else riskLoop sat1 sat2 H (t + Fin 60) d tca \<sigma>')"
proof -
  let ?a = "advancedBy el1 (Fin 60) (\<sigma> sat1)"
  have a: "calculatePosition (Some (Fin 60)) (\<sigma> sat1) = Inr ?a"
    using assms(3) by (rule calculatePosition_advancedBy)
  have "(\<sigma>(sat1 := ?a)) sat2 = \<sigma> sat2"
    using assms(2) by simp
  then have b: "calculatePosition (Some (Fin 60)) ((\<sigma>(sat1 := ?a)) sat2) =
      Inr (advancedBy el2 (Fin 60) (\<sigma> sat2))"
    using assms(4) by (simp add: calculatePosition_advancedBy)
  show ?thesis
    by (subst riskLoop.simps) (simp only: a b assms(1) if_True sum.case)
qed




lemma predictCollisionRisk_loop:
  "riskLoop sat1 sat2 H (Fin 0) PosInfinity (Fin 0) \<sigma> = Some (Inr (d, tca, \<sigma>')) \<Longrightarrow>
   predictCollisionRisk \<sigma> sat1 sat2 (Some H) = Some (Inr (classifyRisk d tca, \<sigma>'))"
  "riskLoop sat1 sat2 H (Fin 0) PosInfinity (Fin 0) \<sigma> = Some (Inl e) \<Longrightarrow>
   predictCollisionRisk \<sigma> sat1 sat2 (Some H) = Some (Inl e)"
  by (simp_all add: predictCollisionRisk_def)


lemma riskLoop_scan:
  assumes "sat1 \<noteq> sat2"
    and "sim_orbitalElements (\<sigma> sat1) = Some el1"
    and "sim_orbitalElements (\<sigma> sat2) = Some el2"
    and "h \<le> t + 60 * real n" and "n = 0 \<or> t + 60 * (real n - 1) < h"
  shows "riskLoop sat1 sat2 (Fin h) (Fin t) d tca \<sigma> =
           Some (Inr (fst (scanSamples (sampleDistance el1 el2 (\<sigma> sat1) (\<sigma> sat2)) n t d tca),
                      snd (scanSamples (sampleDistance el1 el2 (\<sigma> sat1) (\<sigma> sat2)) n t d tca),
             \<sigma>(sat1 := (advancedBy el1 (Fin 60) ^^ n) (\<sigma> sat1),
               sat2 := (advancedBy el2 (Fin 60) ^^ n) (\<sigma> sat2))))"
  using assms(2-)
proof (induction n arbitrary: t d tca \<sigma>)
  case 0
  then have "\<not> Fin t < Fin h" by simp
  then show ?case by (simp add: riskLoop_stop)
next
  case (Suc n)
  let ?a = "advancedBy el1 (Fin 60) (\<sigma> sat1)"
  let ?b = "advancedBy el2 (Fin 60) (\<sigma> sat2)"
  let ?\<sigma> = "\<sigma>(sat1 := ?a, sat2 := ?b)"
  let ?smp = "sampleDistance el1 el2 (\<sigma> sat1) (\<sigma> sat2)"
  have ab: "?\<sigma> sat1 = ?a" "?\<sigma> sat2 = ?b" using assms(1) by simp_all
  have run: "Fin t < Fin h" using Suc.prems(4) by simp
  have el: "sim_orbitalElements (?\<sigma> sat1) = Some el1" "sim_orbitalElements (?\<sigma> sat2) = Some el2"
    using assms(1) Suc.prems(1,2) by simp_all
  have bounds: "h \<le> (t + 60) + 60 * real n" "n = 0 \<or> (t + 60) + 60 * (real n - 1) < h"
    using Suc.prems(3,4) by (simp_all add: algebra_simps)
  have final: "?\<sigma>(sat1 := (advancedBy el1 (Fin 60) ^^ n) (?\<sigma> sat1),
                  sat2 := (advancedBy el2 (Fin 60) ^^ n) (?\<sigma> sat2)) =
               \<sigma>(sat1 := (advancedBy el1 (Fin 60) ^^ Suc n) (\<sigma> sat1),
                 sat2 := (advancedBy el2 (Fin 60) ^^ Suc n) (\<sigma> sat2))"
    using assms(1) by (simp add: fun_eq_iff funpow_swap1)
  have shift: "sampleDistance el1 el2 (?\<sigma> sat1) (?\<sigma> sat2) = (\<lambda>k. ?smp (Suc k))"
    unfolding ab by (simp add: fun_eq_iff sampleDistance_def funpow_swap1)
  have first: "calculateDistance (?\<sigma> sat1) (?\<sigma> sat2) = ?smp 1"
    unfolding ab by (simp add: sampleDistance_def)
  note rec = Suc.IH [OF el bounds, unfolded final shift]
  have step: "riskLoop sat1 sat2 (Fin h) (Fin t) d tca \<sigma> =
      (if ?smp 1 < d then riskLoop sat1 sat2 (Fin h) (Fin (t + 60)) (?smp 1) (Fin t) ?\<sigma>
       else riskLoop sat1 sat2 (Fin h) (Fin (t + 60)) d tca ?\<sigma>)"
    by (simp only: riskLoop_step [OF run assms(1) Suc.prems(1,2)] Let_def plus_number.simps first)
  show ?case
  proof (cases "?smp 1 < d")
    case True
    then show ?thesis
      by (simp only: step if_True rec scanSamples.simps)
  next
    case False
    then show ?thesis
      by (simp only: step if_False rec scanSamples.simps)
  qed
qed

lemma predictCollisionRisk_scan:
  assumes "sat1 \<noteq> sat2"
    and "sim_orbitalElements (\<sigma> sat1) = Some el1"
    and "sim_orbitalElements (\<sigma> sat2) = Some el2"
    and "scanSamples (sampleDistance el1 el2 (\<sigma> sat1) (\<sigma> sat2)) (Suc n) 0 PosInfinity (Fin 0) =
           (d, tca)"
  shows "predictCollisionRisk \<sigma> sat1 sat2 (Some (Fin (60 * real (Suc n)))) =
           Some (Inr (classifyRisk d tca,
             \<sigma>(sat1 := advancedBy el1 (Fin (60 * real (Suc n))) (\<sigma> sat1),
               sat2 := advancedBy el2 (Fin (60 * real (Suc n))) (\<sigma> sat2))))"
proof -
  have "(60::real) * real (Suc n) \<le> 0 + 60 * real (Suc n)"
    "Suc n = 0 \<or> (0::real) + 60 * (real (Suc n) - 1) < 60 * real (Suc n)"
    by simp_all
  from riskLoop_scan [OF assms(1-3) this, of PosInfinity "Fin 0"]
  have "riskLoop sat1 sat2 (Fin (60 * real (Suc n))) (Fin 0) PosInfinity (Fin 0) \<sigma> =
      Some (Inr (d, tca,
        \<sigma>(sat1 := advancedBy el1 (Fin (60 * real (Suc n))) (\<sigma> sat1),
          sat2 := advancedBy el2 (Fin (60 * real (Suc n))) (\<sigma> sat2))))"
    by (simp only: assms(4) fst_conv snd_conv funpow_advancedBy)
  then show ?thesis by (rule predictCollisionRisk_loop(1))
qed

lemma all_from_one_Suc:
  "(\<forall>j. 1 \<le> j \<and> j \<le> Suc m \<longrightarrow> Q j) \<longleftrightarrow> Q 1 \<and> (\<forall>j. 1 \<le> j \<and> j \<le> m \<longrightarrow> Q (Suc j))"
proof
  assume "\<forall>j. 1 \<le> j \<and> j \<le> Suc m \<longrightarrow> Q j"
  then show "Q 1 \<and> (\<forall>j. 1 \<le> j \<and> j \<le> m \<longrightarrow> Q (Suc j))" by simp
next
  assume r: "Q 1 \<and> (\<forall>j. 1 \<le> j \<and> j \<le> m \<longrightarrow> Q (Suc j))"
  show "\<forall>j. 1 \<le> j \<and> j \<le> Suc m \<longrightarrow> Q j"
  proof (intro allI impI)
    fix j assume j: "1 \<le> j \<and> j \<le> Suc m"
    then obtain i where i: "j = Suc i" by (cases j) simp_all
    show "Q j"
    proof (cases "i = 0")
      case True
      with i r show ?thesis by simp
    next
      case False
      with i j r show ?thesis by simp
    qed
  qed
qed

text \<open>
  What the scan returns: either no sample was below the starting value, or the value of a
  sample that no sample is below, with the offset of the step that led to its first
  occurrence.
\<close>

lemma scanSamples_result:
  assumes "scanSamples sample n t d tca = (d', tca')"
  shows "(d' = d \<and> tca' = tca \<and> (\<forall>j. 1 \<le> j \<and> j \<le> n \<longrightarrow> \<not> sample j < d)) \<or>
         (\<exists>k<n. d' = sample (Suc k) \<and> tca' = Fin (t + 60 * real k) \<and> d' < d \<and>
            (\<forall>j. 1 \<le> j \<and> j \<le> n \<longrightarrow> \<not> sample j < d') \<and>
            (\<forall>j. 1 \<le> j \<and> j \<le> k \<longrightarrow> sample j \<noteq> d'))"
  using assms
proof (induction n arbitrary: sample t d tca)
  case 0
  then show ?case by simp
next
  case (Suc n)
  let ?rest = "\<lambda>k. sample (Suc k)"
  show ?case
  proof (cases "sample 1 < d")
    case True
    with Suc.prems have "scanSamples ?rest n (t + 60) (sample 1) (Fin t) = (d', tca')"
      by simp
    from Suc.IH [OF this] show ?thesis
    proof
      assume a: "d' = sample 1 \<and> tca' = Fin t \<and> (\<forall>j. 1 \<le> j \<and> j \<le> n \<longrightarrow> \<not> sample (Suc j) < sample 1)"
      then have "\<forall>j. 1 \<le> j \<and> j \<le> Suc n \<longrightarrow> \<not> sample j < d'"
        unfolding all_from_one_Suc by (simp add: less_number_irrefl)
      with a True have "0 < Suc n \<and> d' = sample (Suc 0) \<and> tca' = Fin (t + 60 * real (0::nat)) \<and>
          d' < d \<and> (\<forall>j. 1 \<le> j \<and> j \<le> Suc n \<longrightarrow> \<not> sample j < d') \<and>
          (\<forall>j. 1 \<le> j \<and> j \<le> 0 \<longrightarrow> sample j \<noteq> d')"
        by simp
      then show ?thesis by blast
    next
      assume "\<exists>k<n. d' = sample (Suc (Suc k)) \<and> tca' = Fin (t + 60 + 60 * real k) \<and>
          d' < sample 1 \<and> (\<forall>j. 1 \<le> j \<and> j \<le> n \<longrightarrow> \<not> sample (Suc j) < d') \<and>
          (\<forall>j. 1 \<le> j \<and> j \<le> k \<longrightarrow> sample (Suc j) \<noteq> d')"
      then obtain k where k: "k < n" "d' = sample (Suc (Suc k))"
        "tca' = Fin (t + 60 + 60 * real k)" "d' < sample 1"
        "\<forall>j. 1 \<le> j \<and> j \<le> n \<longrightarrow> \<not> sample (Suc j) < d'"
        "\<forall>j. 1 \<le> j \<and> j \<le> k \<longrightarrow> sample (Suc j) \<noteq> d'"
        by blast
      have "d' < d" using k(4) True by (rule less_number_trans)
      moreover have "\<forall>j. 1 \<le> j \<and> j \<le> Suc n \<longrightarrow> \<not> sample j < d'"
        unfolding all_from_one_Suc using k(5) less_number_asym [OF k(4)] by simp
      moreover have "sample 1 \<noteq> d'"
        using k(4) less_number_irrefl by auto
      then have "\<forall>j. 1 \<le> j \<and> j \<le> Suc k \<longrightarrow> sample j \<noteq> d'"
        unfolding all_from_one_Suc using k(6) by simp
      moreover have "tca' = Fin (t + 60 * real (Suc k))"
        by (simp add: k(3) algebra_simps)
      ultimately have "Suc k < Suc n \<and> d' = sample (Suc (Suc k)) \<and>
          tca' = Fin (t + 60 * real (Suc k)) \<and> d' < d \<and>
          (\<forall>j. 1 \<le> j \<and> j \<le> Suc n \<longrightarrow> \<not> sample j < d') \<and>
          (\<forall>j. 1 \<le> j \<and> j \<le> Suc k \<longrightarrow> sample j \<noteq> d')"
        using k(1,2) by simp
      then show ?thesis by blast
    qed
  next
    case False
    with Suc.prems have "scanSamples ?rest n (t + 60) d tca = (d', tca')"
      by simp
    from Suc.IH [OF this] show ?thesis
    proof
      assume a: "d' = d \<and> tca' = tca \<and> (\<forall>j. 1 \<le> j \<and> j \<le> n \<longrightarrow> \<not> sample (Suc j) < d)"
      then have "\<forall>j. 1 \<le> j \<and> j \<le> Suc n \<longrightarrow> \<not> sample j < d"
        unfolding all_from_one_Suc using False by simp
      with a show ?thesis by blast
    next
      assume "\<exists>k<n. d' = sample (Suc (Suc k)) \<and> tca' = Fin (t + 60 + 60 * real k) \<and>
          d' < d \<and> (\<forall>j. 1 \<le> j \<and> j \<le> n \<longrightarrow> \<not> sample (Suc j) < d') \<and>
          (\<forall>j. 1 \<le> j \<and> j \<le> k \<longrightarrow> sample (Suc j) \<noteq> d')"
      then obtain k where k: "k < n" "d' = sample (Suc (Suc k))"
        "tca' = Fin (t + 60 + 60 * real k)" "d' < d"
        "\<forall>j. 1 \<le> j \<and> j \<le> n \<longrightarrow> \<not> sample (Suc j) < d'"
        "\<forall>j. 1 \<le> j \<and> j \<le> k \<longrightarrow> sample (Suc j) \<noteq> d'"
        by blast
      have 1: "\<not> sample 1 < d'"
        using False k(4) less_number_trans by blast
      have 2: "sample 1 \<noteq> d'"
        using False k(4) by auto
      have "\<forall>j. 1 \<le> j \<and> j \<le> Suc n \<longrightarrow> \<not> sample j < d'"
        unfolding all_from_one_Suc using k(5) 1 by simp
      moreover have "\<forall>j. 1 \<le> j \<and> j \<le> Suc k \<longrightarrow> sample j \<noteq> d'"
        unfolding all_from_one_Suc using k(6) 2 by simp
      moreover have "tca' = Fin (t + 60 * real (Suc k))"
        by (simp add: k(3) algebra_simps)
      ultimately have "Suc k < Suc n \<and> d' = sample (Suc (Suc k)) \<and>
          tca' = Fin (t + 60 * real (Suc k)) \<and> d' < d \<and>
          (\<forall>j. 1 \<le> j \<and> j \<le> Suc n \<longrightarrow> \<not> sample j < d') \<and>
          (\<forall>j. 1 \<le> j \<and> j \<le> Suc k \<longrightarrow> sample j \<noteq> d')"
        using k(1,2,4) by simp
      then show ?thesis by blast
    qed
  qed
qed

text \<open>
  The estimate for two distinct simulators with element sets and a horizon of \<open>n + 1\<close>
  steps: the returned minimum is \<open>Infinity\<close> when no sampled distance is below it, and else
  the least sampled distance; the sample \<open>k + 1\<close>, taken \<open>60 (k + 1)\<close> seconds after the
  call, is returned with the offset \<open>60 k\<close>.
\<close>

lemma estimate_minimum_and_offset:
  assumes "sat1 \<noteq> sat2"
    and "sim_orbitalElements (\<sigma> sat1) = Some el1"
    and "sim_orbitalElements (\<sigma> sat2) = Some el2"
  shows "\<exists>r. predictCollisionRisk \<sigma> sat1 sat2 (Some (Fin (60 * real (Suc n)))) =
           Some (Inr (r, \<sigma>(sat1 := advancedBy el1 (Fin (60 * real (Suc n))) (\<sigma> sat1),
                             sat2 := advancedBy el2 (Fin (60 * real (Suc n))) (\<sigma> sat2)))) \<and>
         ((minDistance r = PosInfinity \<and> timeToClosestApproach r = Fin 0 \<and>
           (\<forall>j. 1 \<le> j \<and> j \<le> Suc n \<longrightarrow>
              \<not> sampleDistance el1 el2 (\<sigma> sat1) (\<sigma> sat2) j < PosInfinity)) \<or>
          (\<exists>k\<le>n. minDistance r = sampleDistance el1 el2 (\<sigma> sat1) (\<sigma> sat2) (Suc k) \<and>
             timeToClosestApproach r = Fin (60 * real k) \<and>
             (\<forall>j. 1 \<le> j \<and> j \<le> Suc n \<longrightarrow>
                \<not> sampleDistance el1 el2 (\<sigma> sat1) (\<sigma> sat2) j < minDistance r) \<and>
             (\<forall>j. 1 \<le> j \<and> j \<le> k \<longrightarrow>
                sampleDistance el1 el2 (\<sigma> sat1) (\<sigma> sat2) j \<noteq> minDistance r)))"
proof -
  let ?sample = "sampleDistance el1 el2 (\<sigma> sat1) (\<sigma> sat2)"
  obtain d tca where scan: "scanSamples ?sample (Suc n) 0 PosInfinity (Fin 0) = (d, tca)"
    by (cases "scanSamples ?sample (Suc n) 0 PosInfinity (Fin 0)")
  have sel: "minDistance (classifyRisk d tca) = d" "timeToClosestApproach (classifyRisk d tca) = tca"
    by (simp_all add: classifyRisk_def)
  have "(d = PosInfinity \<and> tca = Fin 0 \<and>
           (\<forall>j. 1 \<le> j \<and> j \<le> Suc n \<longrightarrow> \<not> ?sample j < PosInfinity)) \<or>
        (\<exists>k\<le>n. d = ?sample (Suc k) \<and> tca = Fin (60 * real k) \<and>
           (\<forall>j. 1 \<le> j \<and> j \<le> Suc n \<longrightarrow> \<not> ?sample j < d) \<and>
           (\<forall>j. 1 \<le> j \<and> j \<le> k \<longrightarrow> ?sample j \<noteq> d))"
    using scanSamples_result [OF scan] by (auto simp: less_Suc_eq_le)
  then show ?thesis
    by (intro exI [of _ "classifyRisk d tca"] conjI predictCollisionRisk_scan [OF assms scan])
       (simp only: sel)
qed

subsection \<open>Finite positions\<close>

lemma fPrime_nonzero:
  assumes "- 1 < e" and "e < 1"
  shows "1 - e * cos E \<noteq> (0::real)"
proof -
  have "\<bar>e * cos E\<bar> = \<bar>e\<bar> * \<bar>cos E\<bar>" by (simp add: abs_mult)
  also have "\<dots> \<le> \<bar>e\<bar> * 1" by (intro mult_left_mono) simp_all
  also have "\<dots> < 1" using assms by simp
  finally show ?thesis by linarith
qed

lemma newtonStep_finite:
  assumes "- 1 < e" and "e < 1"
  shows "\<exists>E'. newtonStep (Fin M) (Fin e) (Fin E) = Fin E'"
  using fPrime_nonzero [OF assms, of E]
  by (simp add: newtonStep_def keplerResidual_def minus_number_def)

lemma keplerLoop_finite:
  assumes "- 1 < e" and "e < 1"
  shows "\<exists>E'. keplerLoop k (Fin M) (Fin e) (Fin E) = Fin E'"
proof (induction k arbitrary: E)
  case 0
  show ?case by simp
next
  case (Suc k)
  obtain E1 where "newtonStep (Fin M) (Fin e) (Fin E) = Fin E1"
    using newtonStep_finite [OF assms] by blast
  with Suc.IH [of E1] show ?case
    by (simp add: keplerLoop_step del: keplerLoop.simps)
qed

lemma specKepler_finite:
  assumes "- 1 < e" and "e < 1"
  shows "\<exists>E. specKepler (Fin M) (Fin e) = Fin E"
  using keplerLoop_finite [OF assms, of 10 M M]
  by (simp only: solveKeplersEquation_spec [symmetric] solveKeplersEquation_def)

lemma specPosition_finite:
  assumes "finiteElements el"
  shows "finiteVec (specPosition el (Fin t))"
proof -
  from assms obtain a e i raan argp n m where el:
    "el_semiMajorAxis el = Fin a" "el_eccentricity el = Fin e" "- 1 < e" "e < 1"
    "el_inclination el = Fin i" "el_rightAscensionOfAscendingNode el = Fin raan"
    "el_argumentOfPeriapsis el = Fin argp" "el_meanMotion el = Fin n" "el_meanAnomaly el = Fin m"
    unfolding finiteElements_def by blast
  obtain E where E: "specKepler (Fin (m + n * t)) (Fin e) = Fin E"
    using specKepler_finite [OF el(3,4)] by blast
  have "\<exists>nu. specTrueAnomaly (Fin e) (Fin E) = Fin nu"
    using el(3,4) by (simp add: specTrueAnomaly_def minus_number_def)
  then obtain nu where nu: "specTrueAnomaly (Fin e) (Fin E) = Fin nu" by blast
  have r: "specRadius (Fin a) (Fin e) (Fin E) = Fin (a * (1 - e * cos E))"
    by (simp add: specRadius_def minus_number_def)
  show ?thesis
    by (simp add: specPosition_def Let_def el E nu r rotate313_def finiteVec_def minus_number_def)
qed

lemma calculateDistance_finite:
  assumes "finiteVec (sim_position s1)" and "finiteVec (sim_position s2)"
  shows "\<exists>d. calculateDistance s1 s2 = Fin d"
proof -
  from assms obtain a b c a' b' c' where
    "sim_position s1 = \<lparr>vec_x = Fin a, vec_y = Fin b, vec_z = Fin c\<rparr>"
    "sim_position s2 = \<lparr>vec_x = Fin a', vec_y = Fin b', vec_z = Fin c'\<rparr>"
    unfolding finiteVec_def by blast
  moreover have "\<not> (a - a') * (a - a') + (b - b') * (b - b') + (c - c') * (c - c') < 0"
    by (simp add: not_less add_nonneg_nonneg)
  ultimately show ?thesis
    by (simp add: calculateDistance_def Let_def minus_number_def numeral_2_eq_2)
qed



lemma advancedBy_finite_position:
  assumes "finiteElements el" and "sim_time s = Fin t"
  shows "finiteVec (sim_position (advancedBy el (Fin dt) s))"
  using specPosition_finite [OF assms(1), of "t + dt"]
  by (simp add: advancedBy_def assms(2))

lemma finiteElements_exampleSatellite: "finiteElements (calculateOrbitalElements exampleSatellite)"
proof -
  let ?el = "calculateOrbitalElements exampleSatellite"
  have alt: "sat_altitude exampleSatellite = Fin 400" "(0::real) < 400"
    by (simp_all add: exampleSatellite_def)
  have leo: "sat_orbitType exampleSatellite = LEO"
    by (simp add: exampleSatellite_def)
  obtain n where "el_meanMotion ?el = Fin n"
    using meanMotion_positive(2) [OF alt] by blast
  moreover have "el_semiMajorAxis ?el = Fin (400 + 6371)"
    using alt by (rule meanMotion_positive(1))
  moreover have "el_eccentricity ?el = Fin (1 / 100)"
    "el_argumentOfPeriapsis ?el = Fin 0"
    "el_rightAscensionOfAscendingNode ?el = Fin 0" "el_meanAnomaly ?el = Fin 0"
    by (simp_all add: calculateOrbitalElements_LEO [OF leo], simp_all add: exampleSatellite_def)
  moreover have "el_inclination ?el = Fin (516 / 10 * pi / 180)"
    by (simp add: calculateOrbitalElements_def Let_def exampleSatellite_def)
  moreover have "- 1 < (1::real) / 100" "(1::real) / 100 < 1" by simp_all
  ultimately show ?thesis unfolding finiteElements_def by blast
qed

lemma finiteElements_geoSatellite: "finiteElements (calculateOrbitalElements geoSatellite)"
proof -
  let ?el = "calculateOrbitalElements geoSatellite"
  have alt: "sat_altitude geoSatellite = Fin 35786" "(0::real) < 35786"
    by (simp_all add: geoSatellite_def)
  have geo: "sat_orbitType geoSatellite \<noteq> LEO" "sat_orbitType geoSatellite \<noteq> Polar"
    by (simp_all add: geoSatellite_def)
  obtain n where "el_meanMotion ?el = Fin n"
    using meanMotion_positive(2) [OF alt] by blast
  moreover have "el_semiMajorAxis ?el = Fin (35786 + 6371)"
    using alt by (rule meanMotion_positive(1))
  moreover note calculateOrbitalElements_other [OF geo]
  moreover have "el_inclination ?el = Fin 0"
    by (simp add: calculateOrbitalElements_def Let_def geoSatellite_def)
  moreover have "- 1 < (0::real)" "(0::real) < 1" by simp_all
  ultimately show ?thesis unfolding finiteElements_def by blast
qed

lemma exampleStore_elements:
  "sim_orbitalElements (exampleStore 0) = Some (calculateOrbitalElements exampleSatellite)"
  "sim_orbitalElements (exampleStore 1) = Some (calculateOrbitalElements geoSatellite)"
  "sim_orbitalElements (exampleStore 2) = None"
  by (simp_all add: exampleStore_def initialState_def tleState_def)

lemma exampleStore_times:
  "sim_time (exampleStore 0) = Fin 1" "sim_time (exampleStore 1) = Fin 1"
  by (simp_all add: exampleStore_def initialState_def)

subsection \<open>What the estimator does to its two simulators\<close>




subsection \<open>The offset of the closest approach\<close>

lemma predictCollisionRisk_one_sample:
  assumes "sat1 \<noteq> sat2"
    and "sim_orbitalElements (\<sigma> sat1) = Some el1" and "sim_orbitalElements (\<sigma> sat2) = Some el2"
    and "finiteElements el1" and "finiteElements el2"
    and "sim_time (\<sigma> sat1) = Fin t1" and "sim_time (\<sigma> sat2) = Fin t2"
  shows "predictCollisionRisk \<sigma> sat1 sat2 (Some (Fin 60)) =
           Some (Inr (classifyRisk
                        (calculateDistance (advancedBy el1 (Fin 60) (\<sigma> sat1))
                           (advancedBy el2 (Fin 60) (\<sigma> sat2)))
                        (Fin 0),
                      \<sigma>(sat1 := advancedBy el1 (Fin 60) (\<sigma> sat1),
                        sat2 := advancedBy el2 (Fin 60) (\<sigma> sat2))))"
proof -
  let ?a = "advancedBy el1 (Fin 60) (\<sigma> sat1)" and ?b = "advancedBy el2 (Fin 60) (\<sigma> sat2)"
  let ?\<sigma> = "\<sigma>(sat1 := ?a, sat2 := ?b)"
  have ab: "?\<sigma> sat1 = ?a" "?\<sigma> sat2 = ?b" using assms(1) by simp_all
  obtain d where d: "calculateDistance ?a ?b = Fin d"
    using calculateDistance_finite [OF advancedBy_finite_position [OF assms(4,6)]
        advancedBy_finite_position [OF assms(5,7)]]
    by blast
  have run: "Fin 0 < Fin 60" by simp
  have stop: "\<not> Fin 60 < Fin 60" by simp
  have lt: "calculateDistance ?a ?b < PosInfinity" by (simp add: d)
  have next_t: "Fin 0 + Fin 60 = Fin 60" by simp
  have "riskLoop sat1 sat2 (Fin 60) (Fin 0) PosInfinity (Fin 0) \<sigma> =
          riskLoop sat1 sat2 (Fin 60) (Fin 60) (calculateDistance ?a ?b) (Fin 0) ?\<sigma>"
    by (simp only: riskLoop_step [OF run assms(1,2,3)] Let_def ab lt if_True next_t)
  also have "\<dots> = Some (Inr (calculateDistance ?a ?b, Fin 0, ?\<sigma>))"
    using stop by (rule riskLoop_stop)
  finally show ?thesis by (rule predictCollisionRisk_loop(1))
qed

lemma example_collision_estimate:
  "predictCollisionRisk exampleStore 0 1 (Some (Fin 60)) =
     Some (Inr (exampleEstimate, exampleStoreAfter))"
proof -
  have ne: "(0::ref) \<noteq> 1" by simp
  have "exampleStoreAfter 0 =
          advancedBy (calculateOrbitalElements exampleSatellite) (Fin 60) (exampleStore 0)"
    "exampleStoreAfter 1 =
          advancedBy (calculateOrbitalElements geoSatellite) (Fin 60) (exampleStore 1)"
    by (simp_all add: exampleStoreAfter_def)
  then show ?thesis
    using predictCollisionRisk_one_sample [OF ne exampleStore_elements(1,2)
        finiteElements_exampleSatellite finiteElements_geoSatellite exampleStore_times]
    by (simp add: exampleEstimate_def exampleStoreAfter_def)
qed

text \<open>
  Claim C2 at a horizon of 60 s. The estimator advances both simulators by 60 s and takes
  its only sample there; the minimum distance it returns is the distance at that sample,
  and the offset it returns for it is 0, not the 60 s at which the sample was taken.
\<close>

theorem reported_offset_example:
  "createSatelliteSimulator noFix exampleSatellite = Inr (exampleStore 0) \<and>
   createSatelliteSimulator noFix geoSatellite = Inr (exampleStore 1) \<and>
   predictCollisionRisk exampleStore 0 1 (Some (Fin 60)) =
     Some (Inr (exampleEstimate, exampleStoreAfter)) \<and>
   sim_time (exampleStoreAfter 0) = sim_time (exampleStore 0) + Fin 60 \<and>
   sim_time (exampleStoreAfter 1) = sim_time (exampleStore 1) + Fin 60 \<and>
   minDistance exampleEstimate = calculateDistance (exampleStoreAfter 0) (exampleStoreAfter 1) \<and>
   timeToClosestApproach exampleEstimate = Fin 0"
proof -
  have "sat_tle exampleSatellite = None" "sat_tle geoSatellite = None"
    by (simp_all add: exampleSatellite_def geoSatellite_def)
  then have "createSatelliteSimulator noFix exampleSatellite = Inr (exampleStore 0)"
    "createSatelliteSimulator noFix geoSatellite = Inr (exampleStore 1)"
    by (simp_all add: createSatelliteSimulator_elements exampleStore_def)
  moreover have "sim_time (exampleStoreAfter 0) = sim_time (exampleStore 0) + Fin 60"
    "sim_time (exampleStoreAfter 1) = sim_time (exampleStore 1) + Fin 60"
    by (simp_all add: exampleStoreAfter_def advancedBy_def)
  moreover have "minDistance exampleEstimate =
      calculateDistance (exampleStoreAfter 0) (exampleStoreAfter 1)"
    "timeToClosestApproach exampleEstimate = Fin 0"
    by (simp_all add: exampleEstimate_def classifyRisk_def)
  ultimately show ?thesis using example_collision_estimate by blast
qed

subsection \<open>Risk classification\<close>














end
